theory Spec2Isabelle
  imports Main "HOL-Library.Word"
begin

unbundle bit_operations_syntax

section \<open>Machine types, Go strings and errors\<close>

text \<open>
  Go's fixed-width integers are words. \<open>int64\<close> and \<open>uint64\<close> share the bit pattern; a
  signed value is read with \<open>sint\<close>, an unsigned one with \<open>uint\<close> or \<open>unat\<close>. A Go
  \<open>string\<close> is a byte sequence, here a \<open>char list\<close>; a byte slice is a list of 8-bit words.
\<close>

type_synonym byte = "8 word"
type_synonym uint16 = "16 word"
type_synonym uint32 = "32 word"
type_synonym uint64 = "64 word"
type_synonym int64 = "64 word"

text \<open>
  Errors are values. \<open>Wrap e msg\<close> is \<open>errors.Wrap(e, msg)\<close>, \<open>New msg\<close> is
  \<open>errors.New(msg)\<close>; the two formatted errors of the transaction validator keep their
  arguments; \<open>Panic\<close> stands for a run-time panic (index out of range).
\<close>

datatype error =
    EOF
  | ErrUnexpectedEOF
  | ErrNotFound
  | ErrNotValidTransaction
  | New string
  | Wrap error string
  | TxCountMismatch nat nat
  | TxNotInDigestsMap string
  | Panic string

text \<open>\<open>string(buf)\<close>: the bytes of the slice become the bytes of the string.\<close>

definition string_of_bytes :: "byte list \<Rightarrow> string" where
  "string_of_bytes buf = map (\<lambda>b. char_of (unat b)) buf"

text \<open>\<open>uint64(x)\<close> for an \<open>int64\<close> x: the value is reduced modulo \<open>2^64\<close>.\<close>

definition uint64_of_int64 :: "int64 \<Rightarrow> uint64" where
  "uint64_of_int64 x = word_of_int (sint x)"

section \<open>encoding/binary and bytes, as far as the payload codec uses them\<close>

text \<open>\<open>binary.LittleEndian.PutUint64\<close> into an 8-byte buffer, and \<open>binary.LittleEndian.Uint64\<close>.\<close>

definition PutUint64 :: "uint64 \<Rightarrow> byte list" where
  "PutUint64 v = [ucast v, ucast (drop_bit 8 v), ucast (drop_bit 16 v), ucast (drop_bit 24 v),
     ucast (drop_bit 32 v), ucast (drop_bit 40 v), ucast (drop_bit 48 v), ucast (drop_bit 56 v)]"

definition Uint64 :: "byte list \<Rightarrow> uint64" where
  "Uint64 b = ucast (b ! 0) OR push_bit 8 (ucast (b ! 1)) OR push_bit 16 (ucast (b ! 2))
     OR push_bit 24 (ucast (b ! 3)) OR push_bit 32 (ucast (b ! 4)) OR push_bit 40 (ucast (b ! 5))
     OR push_bit 48 (ucast (b ! 6)) OR push_bit 56 (ucast (b ! 7))"

text \<open>
  \<open>binary.Read\<close> of a fixed-size value of \<open>n\<close> bytes from a \<open>bytes.Reader\<close> goes through
  \<open>io.ReadFull\<close>: \<open>io.EOF\<close> when nothing is left, \<open>io.ErrUnexpectedEOF\<close> when fewer than
  \<open>n\<close> bytes are left, otherwise the bytes read and the rest of the reader.
\<close>

definition ReadFull :: "nat \<Rightarrow> byte list \<Rightarrow> error + (byte list \<times> byte list)" where
  "ReadFull n r =
     (if n \<le> length r then Inr (take n r, drop n r)
      else if r = [] then Inl EOF
      else Inl ErrUnexpectedEOF)"

text \<open>
  \<open>bytes.Trim(s, cutset)\<close> with a one-byte ASCII cutset is
  \<open>trimLeftByte(trimRightByte(s, c), c)\<close>: the byte is sliced off both ends.
\<close>

definition trimRightByte :: "byte list \<Rightarrow> byte \<Rightarrow> byte list" where
  "trimRightByte s c = rev (dropWhile (\<lambda>b. b = c) (rev s))"

definition trimLeftByte :: "byte list \<Rightarrow> byte \<Rightarrow> byte list" where
  "trimLeftByte s c = dropWhile (\<lambda>b. b = c) s"

definition Trim :: "byte list \<Rightarrow> byte \<Rightarrow> byte list" where
  "Trim s c = trimLeftByte (trimRightByte s c) c"

section \<open>qx/payloads.go\<close>

record QxTransferAssetOwnershipAndPossessionInput =
  Issuer :: "byte list"
  NewOwnerAndPossessor :: "byte list"
  AssetName :: uint64
  NumberOfUnits :: int64

text \<open>The two array fields are \<open>[32]byte\<close> in the source: a value of the Go type has 32 bytes in each.\<close>

definition wf_input :: "QxTransferAssetOwnershipAndPossessionInput \<Rightarrow> bool" where
  "wf_input x \<longleftrightarrow> length (Issuer x) = 32 \<and> length (NewOwnerAndPossessor x) = 32"

record QxTransferAssetPayload =
  pl_Issuer :: string
  pl_DestId :: string
  pl_AssetName :: string
  pl_Amount :: int64

definition Uint64ToString :: "uint64 \<Rightarrow> string" where
  "Uint64ToString v = (let buf = PutUint64 v; buf = Trim buf 0 in string_of_bytes buf)"

text \<open>
  \<open>types.Identity.FromPubKey\<close> belongs to the node-connector library; it is the parameter
  \<open>FromPubKey\<close> (public key, lower-case flag) here.
\<close>

type_synonym from_pub_key = "byte list \<Rightarrow> bool \<Rightarrow> error + string"

definition GetAssetTransfer ::
  "from_pub_key \<Rightarrow> QxTransferAssetOwnershipAndPossessionInput \<Rightarrow> error + QxTransferAssetPayload" where
  "GetAssetTransfer FromPubKey inp =
     (case FromPubKey (Issuer inp) False of
        Inl err \<Rightarrow> Inl (Wrap err ''getting issuer identity from bytes'')
      | Inr issuerId \<Rightarrow>
          (case FromPubKey (NewOwnerAndPossessor inp) False of
             Inl err \<Rightarrow> Inl (Wrap err ''getting newOwnerAndPossessor identity from bytes'')
           | Inr newOwnerAndPossessorId \<Rightarrow>
               Inr \<lparr> pl_Issuer = issuerId,
                     pl_DestId = newOwnerAndPossessorId,
                     pl_AssetName = Uint64ToString (AssetName inp),
                     pl_Amount = NumberOfUnits inp \<rparr>))"

text \<open>\<open>binary.Write\<close> into a \<open>bytes.Buffer\<close> does not fail on fixed-size values.\<close>

definition MarshalBinary :: "QxTransferAssetOwnershipAndPossessionInput \<Rightarrow> error + byte list" where
  "MarshalBinary t =
     Inr (Issuer t @ NewOwnerAndPossessor t @ PutUint64 (AssetName t) @ PutUint64 (NumberOfUnits t))"

text \<open>
  \<open>UnmarshalBinary\<close> fills the receiver \<open>t\<close> field by field and stops at the first read that
  fails. The result is the error or the filled receiver (every caller drops the receiver on
  an error).
\<close>

definition UnmarshalBinary ::
  "QxTransferAssetOwnershipAndPossessionInput \<Rightarrow> byte list \<Rightarrow>
     error + QxTransferAssetOwnershipAndPossessionInput" where
  "UnmarshalBinary t data =
     (case ReadFull 32 data of
        Inl err \<Rightarrow> Inl (Wrap err ''reading issuer'')
      | Inr (issuer, r1) \<Rightarrow>
     (case ReadFull 32 r1 of
        Inl err \<Rightarrow> Inl (Wrap err ''reading new owner and possessor'')
      | Inr (owner, r2) \<Rightarrow>
     (case ReadFull 8 r2 of
        Inl err \<Rightarrow> Inl (Wrap err ''reading asset name'')
      | Inr (name, r3) \<Rightarrow>
     (case ReadFull 8 r3 of
        Inl err \<Rightarrow> Inl (Wrap err ''reading number of units'')
      | Inr (units, r4) \<Rightarrow>
          Inr (t\<lparr> Issuer := issuer, NewOwnerAndPossessor := owner,
                  AssetName := Uint64 name, NumberOfUnits := Uint64 units \<rparr>)))))"

section \<open>The node-connector library\<close>

record Transaction =
  SourcePublicKey :: "byte list"
  DestinationPublicKey :: "byte list"
  Amount :: int64
  Tick :: uint32
  InputType :: uint16
  InputSize :: uint16
  Input :: "byte list"
  Signature :: "byte list"

record TickData =
  td_Epoch :: uint16
  td_Tick :: uint32
  td_Timestamp :: uint64
  TransactionDigests :: "byte list list"

text \<open>
  What the code calls in \<open>go-node-connector/types\<close> and \<open>utils\<close> is taken as a parameter:
  the identity text of a key, the digest, id and wire form of a transaction, the K12 hash,
  and the send-many payload decoder (the decoded payload is represented by the input bytes
  it was decoded from).
\<close>

record Lib =
  FromPubKey :: from_pub_key
  Digest :: "Transaction \<Rightarrow> error + byte list"
  ID :: "Transaction \<Rightarrow> error + string"
  MarshallBinary :: "Transaction \<Rightarrow> error + byte list"
  K12Hash :: "byte list \<Rightarrow> error + byte list"
  QutilAddress :: string
  SendMany_UnmarshallBinary :: "byte list \<Rightarrow> error option"
  SendMany_GetTransfers :: "byte list \<Rightarrow> error + (string \<times> int64) list"
  SendMany_GetTotalAmount :: "byte list \<Rightarrow> int64"

type_synonym SigVerifierFunc = "byte list \<Rightarrow> byte list \<Rightarrow> byte list \<Rightarrow> error option"

text \<open>\<open>hex.EncodeToString\<close>.\<close>

definition hextable :: string where
  "hextable = ''0123456789abcdef''"

fun EncodeToString :: "byte list \<Rightarrow> string" where
  "EncodeToString [] = []"
| "EncodeToString (v # src) =
     hextable ! unat (drop_bit 4 v) # hextable ! unat (v AND 0x0f) # EncodeToString src"

text \<open>Reading a Go map of slices at a key: a missing key gives the nil slice.\<close>

definition slice_at :: "('k \<rightharpoonup> 'v list) \<Rightarrow> 'k \<Rightarrow> 'v list" where
  "slice_at m k = (case m k of None \<Rightarrow> [] | Some l \<Rightarrow> l)"

section \<open>validator/tx: validation\<close>

definition emptyTxDigest :: "byte list" where
  "emptyTxDigest = replicate 32 0"

text \<open>The digests map has values of type \<open>struct{}\<close>: it is the set of its keys.\<close>

fun createTxDigestsMap_loop :: "string set \<Rightarrow> byte list list \<Rightarrow> string set" where
  "createTxDigestsMap_loop digestsMap [] = digestsMap"
| "createTxDigestsMap_loop digestsMap (digest # rest) =
     (if digest = emptyTxDigest then createTxDigestsMap_loop digestsMap rest
      else createTxDigestsMap_loop (insert (EncodeToString digest) digestsMap) rest)"

definition createTxDigestsMap :: "TickData \<Rightarrow> string set" where
  "createTxDigestsMap tickData = createTxDigestsMap_loop {} (TransactionDigests tickData)"

definition getDigestFromTransaction :: "Lib \<Rightarrow> Transaction \<Rightarrow> error + byte list" where
  "getDigestFromTransaction lib tx =
     (case MarshallBinary lib tx of
        Inl err \<Rightarrow> Inl (Wrap err ''marshalling'')
      | Inr txDataMarshalledBytes \<Rightarrow>
          (case K12Hash lib txDataMarshalledBytes of
             Inl err \<Rightarrow> Inl (Wrap err ''hashing tx tx'')
           | Inr digest \<Rightarrow> Inr digest))"

text \<open>
  One pass of the loop of \<open>validateTransactions\<close>. The slice expression
  \<open>txDataBytes[:len(txDataBytes)-64]\<close> panics when fewer than 64 bytes were marshalled.
\<close>

definition validateTransaction ::
  "Lib \<Rightarrow> SigVerifierFunc \<Rightarrow> string set \<Rightarrow> Transaction \<Rightarrow> error option" where
  "validateTransaction lib sigVerifierFunc digestsMap tx =
     (case getDigestFromTransaction lib tx of
        Inl err \<Rightarrow> Some (Wrap err ''getting digest from tx data'')
      | Inr txDigest \<Rightarrow>
     (case ID lib tx of
        Inl err \<Rightarrow> Some (Wrap err ''getting tx id'')
      | Inr txId \<Rightarrow>
     (if EncodeToString txDigest \<notin> digestsMap then Some (TxNotInDigestsMap txId)
      else
     (case MarshallBinary lib tx of
        Inl err \<Rightarrow> Some (Wrap err ''marshalling tx data'')
      | Inr txDataBytes \<Rightarrow>
     (if length txDataBytes < 64 then Some (Panic ''slice bounds out of range'')
      else
     (case K12Hash lib (take (length txDataBytes - 64) txDataBytes) of
        Inl err \<Rightarrow> Some (Wrap err ''constructing digest from tx data'')
      | Inr constructedDigest \<Rightarrow>
     (case sigVerifierFunc (SourcePublicKey tx) constructedDigest (Signature tx) of
        Some err \<Rightarrow> Some (Wrap err ''verifying tx signature'')
      | None \<Rightarrow> None)))))))"

fun validateTransactions_loop ::
  "Lib \<Rightarrow> SigVerifierFunc \<Rightarrow> string set \<Rightarrow> Transaction list \<Rightarrow> Transaction list \<Rightarrow>
     error + Transaction list" where
  "validateTransactions_loop lib sigVerifierFunc digestsMap validTransactions [] =
     Inr validTransactions"
| "validateTransactions_loop lib sigVerifierFunc digestsMap validTransactions (tx # rest) =
     (case validateTransaction lib sigVerifierFunc digestsMap tx of
        Some err \<Rightarrow> Inl err
      | None \<Rightarrow>
          validateTransactions_loop lib sigVerifierFunc digestsMap (validTransactions @ [tx]) rest)"

definition validateTransactions ::
  "Lib \<Rightarrow> SigVerifierFunc \<Rightarrow> Transaction list \<Rightarrow> string set \<Rightarrow> error + Transaction list" where
  "validateTransactions lib sigVerifierFunc transactions digestsMap =
     validateTransactions_loop lib sigVerifierFunc digestsMap [] transactions"

definition Validate ::
  "Lib \<Rightarrow> SigVerifierFunc \<Rightarrow> Transaction list \<Rightarrow> TickData \<Rightarrow> error + Transaction list" where
  "Validate lib sigVerifierFunc transactions tickData =
     (let digestsMap = createTxDigestsMap tickData in
      if card digestsMap = 0 then Inr []
      else if length transactions \<noteq> card digestsMap
        then Inl (TxCountMismatch (length transactions) (card digestsMap))
      else
        (case validateTransactions lib sigVerifierFunc transactions digestsMap of
           Inl err \<Rightarrow> Inl (Wrap err ''validating transactions'')
         | Inr validTxs \<Rightarrow> Inr validTxs))"

section \<open>validator/tx: the per-identity transfer records\<close>

record ProtoTransaction =
  pb_SourceId :: string
  pb_DestId :: string
  pb_Amount :: int64
  pb_TickNumber :: uint32
  pb_InputType :: uint32
  pb_InputSize :: uint32
  pb_InputHex :: string
  pb_SignatureHex :: string
  pb_TxId :: string

definition txToProto :: "Lib \<Rightarrow> Transaction \<Rightarrow> error + ProtoTransaction" where
  "txToProto lib tx =
     (case Digest lib tx of
        Inl err \<Rightarrow> Inl (Wrap err ''getting tx digest'')
      | Inr digest \<Rightarrow>
     (case FromPubKey lib digest True of
        Inl err \<Rightarrow> Inl (Wrap err ''getting tx id'')
      | Inr txID \<Rightarrow>
     (case FromPubKey lib (SourcePublicKey tx) False of
        Inl err \<Rightarrow> Inl (Wrap err ''getting source id'')
      | Inr sourceID \<Rightarrow>
     (case FromPubKey lib (DestinationPublicKey tx) False of
        Inl err \<Rightarrow> Inl (Wrap err ''getting dest id'')
      | Inr destID \<Rightarrow>
          Inr \<lparr> pb_SourceId = sourceID,
                pb_DestId = destID,
                pb_Amount = Amount tx,
                pb_TickNumber = Tick tx,
                pb_InputType = ucast (InputType tx),
                pb_InputSize = ucast (InputSize tx),
                pb_InputHex = EncodeToString (Input tx),
                pb_SignatureHex = EncodeToString (Signature tx),
                pb_TxId = txID \<rparr>))))"

fun removeNonTransferTransactionsAndConvert_loop ::
  "Lib \<Rightarrow> ProtoTransaction list \<Rightarrow> Transaction list \<Rightarrow> error + ProtoTransaction list" where
  "removeNonTransferTransactionsAndConvert_loop lib transferTransactions [] =
     Inr transferTransactions"
| "removeNonTransferTransactionsAndConvert_loop lib transferTransactions (tx # rest) =
     (if Amount tx = 0 then removeNonTransferTransactionsAndConvert_loop lib transferTransactions rest
      else
        (case txToProto lib tx of
           Inl err \<Rightarrow> Inl (Wrap err ''converting to proto'')
         | Inr protoTx \<Rightarrow>
             removeNonTransferTransactionsAndConvert_loop lib (transferTransactions @ [protoTx]) rest))"

definition removeNonTransferTransactionsAndConvert ::
  "Lib \<Rightarrow> Transaction list \<Rightarrow> error + ProtoTransaction list" where
  "removeNonTransferTransactionsAndConvert lib transactions =
     removeNonTransferTransactionsAndConvert_loop lib [] transactions"

text \<open>
  \<open>createTransferTransactionsIdentityMap\<close>: the destination's slice is made and appended to
  first, then the source's.
\<close>

fun createTransferTransactionsIdentityMap_loop ::
  "(string \<rightharpoonup> ProtoTransaction list) \<Rightarrow> ProtoTransaction list \<Rightarrow>
     (string \<rightharpoonup> ProtoTransaction list)" where
  "createTransferTransactionsIdentityMap_loop txsPerIdentity [] = txsPerIdentity"
| "createTransferTransactionsIdentityMap_loop txsPerIdentity (tx # rest) =
     (let m1 = (if txsPerIdentity (pb_DestId tx) = None
                then txsPerIdentity(pb_DestId tx \<mapsto> []) else txsPerIdentity);
          m2 = (if m1 (pb_SourceId tx) = None then m1(pb_SourceId tx \<mapsto> []) else m1);
          m3 = m2(pb_DestId tx \<mapsto> slice_at m2 (pb_DestId tx) @ [tx]);
          m4 = m3(pb_SourceId tx \<mapsto> slice_at m3 (pb_SourceId tx) @ [tx])
      in createTransferTransactionsIdentityMap_loop m4 rest)"

definition createTransferTransactionsIdentityMap ::
  "ProtoTransaction list \<Rightarrow> error + (string \<rightharpoonup> ProtoTransaction list)" where
  "createTransferTransactionsIdentityMap txs =
     Inr (createTransferTransactionsIdentityMap_loop Map.empty txs)"

section \<open>validator/tx: the Qx asset transfers\<close>

record QxTransactionWithTransferAssetPayload =
  qt_Transaction :: Transaction
  qt_TransferPayload :: QxTransferAssetPayload

record QxAssetTransfer =
  at_AssetIssuer :: string
  at_AssetName :: string
  at_SourceId :: string
  at_DestId :: string
  at_Amount :: int64
  at_TxId :: string
  at_TickNumber :: uint32

record QxAssetTransferDB =
  db_SourceId :: string
  db_DestId :: string
  db_Amount :: uint64
  db_TxId :: string

text \<open>The zero value of the input struct, the receiver every caller unmarshals into.\<close>

definition zero_input :: QxTransferAssetOwnershipAndPossessionInput where
  "zero_input = \<lparr> Issuer = replicate 32 0, NewOwnerAndPossessor = replicate 32 0,
                   AssetName = 0, NumberOfUnits = 0 \<rparr>"

fun removeNonQxAssetTransferTransactionsAndConvert_loop ::
  "Lib \<Rightarrow> QxTransactionWithTransferAssetPayload list \<Rightarrow> Transaction list \<Rightarrow>
     QxTransactionWithTransferAssetPayload list" where
  "removeNonQxAssetTransferTransactionsAndConvert_loop lib assetTransferTransactions [] =
     assetTransferTransactions"
| "removeNonQxAssetTransferTransactionsAndConvert_loop lib assetTransferTransactions (tx # rest) =
     (if InputType tx \<noteq> 2
      then removeNonQxAssetTransferTransactionsAndConvert_loop lib assetTransferTransactions rest
      else
        (case UnmarshalBinary zero_input (Input tx) of
           Inl err \<Rightarrow>
             removeNonQxAssetTransferTransactionsAndConvert_loop lib assetTransferTransactions rest
         | Inr transferAssetOwnershipAndPossessionInput \<Rightarrow>
             (case GetAssetTransfer (FromPubKey lib) transferAssetOwnershipAndPossessionInput of
                Inl err \<Rightarrow>
                  removeNonQxAssetTransferTransactionsAndConvert_loop lib assetTransferTransactions rest
              | Inr transferPayload \<Rightarrow>
                  removeNonQxAssetTransferTransactionsAndConvert_loop lib
                    (assetTransferTransactions @
                       [\<lparr> qt_Transaction = tx, qt_TransferPayload = transferPayload \<rparr>])
                    rest)))"

definition removeNonQxAssetTransferTransactionsAndConvert ::
  "Lib \<Rightarrow> Transaction list \<Rightarrow> error + QxTransactionWithTransferAssetPayload list" where
  "removeNonQxAssetTransferTransactionsAndConvert lib transactions =
     Inr (removeNonQxAssetTransferTransactionsAndConvert_loop lib [] transactions)"

text \<open>The \<open>QxAssetTransfer\<close> that one pass of \<open>createQxAssetTransfersIdentityMap\<close> builds.\<close>

definition assetTransferOf ::
  "Lib \<Rightarrow> uint32 \<Rightarrow> QxTransactionWithTransferAssetPayload \<Rightarrow> error + QxAssetTransfer" where
  "assetTransferOf lib tickNumber tx =
     (case Digest lib (qt_Transaction tx) of
        Inl err \<Rightarrow> Inl (Wrap err ''getting tx digest'')
      | Inr digest \<Rightarrow>
     (case FromPubKey lib digest True of
        Inl err \<Rightarrow> Inl (Wrap err ''getting tx id'')
      | Inr txID \<Rightarrow>
     (case FromPubKey lib (SourcePublicKey (qt_Transaction tx)) False of
        Inl err \<Rightarrow> Inl (Wrap err ''getting source id'')
      | Inr sourceIdentity \<Rightarrow>
          Inr \<lparr> at_AssetIssuer = pl_Issuer (qt_TransferPayload tx),
                at_AssetName = pl_AssetName (qt_TransferPayload tx),
                at_SourceId = sourceIdentity,
                at_DestId = pl_DestId (qt_TransferPayload tx),
                at_Amount = pl_Amount (qt_TransferPayload tx),
                at_TxId = txID,
                at_TickNumber = tickNumber \<rparr>)))"

fun createQxAssetTransfersIdentityMap_loop ::
  "Lib \<Rightarrow> uint32 \<Rightarrow> (string \<rightharpoonup> QxAssetTransfer list) \<Rightarrow>
     QxTransactionWithTransferAssetPayload list \<Rightarrow> error + (string \<rightharpoonup> QxAssetTransfer list)" where
  "createQxAssetTransfersIdentityMap_loop lib tickNumber assetTransferTxsPerIdentity [] =
     Inr assetTransferTxsPerIdentity"
| "createQxAssetTransfersIdentityMap_loop lib tickNumber assetTransferTxsPerIdentity (tx # rest) =
     (case assetTransferOf lib tickNumber tx of
        Inl err \<Rightarrow> Inl err
      | Inr assetTransfer \<Rightarrow>
          (let destId = at_DestId assetTransfer;
               sourceId = at_SourceId assetTransfer;
               m1 = (if assetTransferTxsPerIdentity destId = None
                     then assetTransferTxsPerIdentity(destId \<mapsto> [])
                     else assetTransferTxsPerIdentity);
               m2 = (if m1 sourceId = None then m1(sourceId \<mapsto> []) else m1);
               m3 = m2(destId \<mapsto> slice_at m2 destId @ [assetTransfer]);
               m4 = m3(sourceId \<mapsto> slice_at m3 sourceId @ [assetTransfer])
           in createQxAssetTransfersIdentityMap_loop lib tickNumber m4 rest))"

definition createQxAssetTransfersIdentityMap ::
  "Lib \<Rightarrow> QxTransactionWithTransferAssetPayload list \<Rightarrow> uint32 \<Rightarrow>
     error + (string \<rightharpoonup> QxAssetTransfer list)" where
  "createQxAssetTransfersIdentityMap lib txs tickNumber =
     createQxAssetTransfersIdentityMap_loop lib tickNumber Map.empty txs"

fun createQxAssetTransferAssetIdMap_loop ::
  "(string \<rightharpoonup> QxAssetTransferDB list) \<Rightarrow> QxAssetTransfer list \<Rightarrow>
     (string \<rightharpoonup> QxAssetTransferDB list)" where
  "createQxAssetTransferAssetIdMap_loop assetTransferPerAssetId [] = assetTransferPerAssetId"
| "createQxAssetTransferAssetIdMap_loop assetTransferPerAssetId (t # rest) =
     (let assetId = at_AssetIssuer t @ at_AssetName t;
          m1 = (if assetTransferPerAssetId assetId = None
                then assetTransferPerAssetId(assetId \<mapsto> []) else assetTransferPerAssetId);
          m2 = m1(assetId \<mapsto> slice_at m1 assetId @
                 [\<lparr> db_SourceId = at_SourceId t,
                    db_DestId = at_DestId t,
                    db_Amount = uint64_of_int64 (at_Amount t),
                    db_TxId = at_TxId t \<rparr>])
      in createQxAssetTransferAssetIdMap_loop m2 rest)"

definition createQxAssetTransferAssetIdMap ::
  "QxAssetTransfer list \<Rightarrow> error + (string \<rightharpoonup> QxAssetTransferDB list)" where
  "createQxAssetTransferAssetIdMap transfers =
     Inr (createQxAssetTransferAssetIdMap_loop Map.empty transfers)"

section \<open>asset_transactions: the classifier\<close>

definition NATIVE_QUBIC_ASSET_ISSUER :: string where
  "NATIVE_QUBIC_ASSET_ISSUER = ''0''"

definition NATIVE_QUBIC_ASSET_NAME :: string where
  "NATIVE_QUBIC_ASSET_NAME = ''0''"

definition SMART_CONTRACT_QX :: string where
  "SMART_CONTRACT_QX = ''BAAAAAAAAAAAAAAAAAAAAAAAAAAAAAAAAAAAAAAAAAAAAAAAAAAAAAAARMID''"

definition SMART_CONTRACT_QUTIL :: string where
  "SMART_CONTRACT_QUTIL = ''EAAAAAAAAAAAAAAAAAAAAAAAAAAAAAAAAAAAAAAAAAAAAAAAAAAAAAAAVWRF''"

record TransactionCurrency =
  cur_AssetIssuer :: string
  cur_AssetName :: string

record TransactionIdParticipantsAndCurrency =
  pc_TxId :: string
  pc_Currency :: TransactionCurrency
  pc_Identities :: "string list"

record LeanTransaction =
  lt_SourceId :: string
  lt_DestId :: string
  lt_TxId :: string
  lt_InputType :: uint32
  lt_Input :: "byte list"

record SendManyTransfer =
  smt_DestId :: string
  smt_Amount :: int64

record SendManyTransaction =
  sm_SourceId :: string
  sm_Transfers :: "SendManyTransfer list"
  sm_TotalAmount :: int64
  sm_TickNumber :: uint32
  sm_TxId :: string
  sm_SignatureHex :: string

text \<open>The two payload pointers are \<open>nil\<close> (\<open>None\<close>) unless the transaction has that payload.\<close>

record TransactionWithAssetPayload =
  ta_Transaction :: LeanTransaction
  ta_QxTransferAssetPayload :: "QxTransferAssetPayload option"
  ta_SendManyTransaction :: "SendManyTransaction option"

definition txToLeanTransaction :: "Lib \<Rightarrow> Transaction \<Rightarrow> error + LeanTransaction" where
  "txToLeanTransaction lib tx =
     (case Digest lib tx of
        Inl err \<Rightarrow> Inl (Wrap err ''getting tx digest'')
      | Inr digest \<Rightarrow>
     (case FromPubKey lib digest True of
        Inl err \<Rightarrow> Inl (Wrap err ''getting tx id'')
      | Inr txID \<Rightarrow>
     (case FromPubKey lib (SourcePublicKey tx) False of
        Inl err \<Rightarrow> Inl (Wrap err ''getting source id'')
      | Inr sourceID \<Rightarrow>
     (case FromPubKey lib (DestinationPublicKey tx) False of
        Inl err \<Rightarrow> Inl (Wrap err ''getting dest id'')
      | Inr destID \<Rightarrow>
          Inr \<lparr> lt_SourceId = sourceID,
                lt_DestId = destID,
                lt_TxId = txID,
                lt_InputType = ucast (InputType tx),
                lt_Input = Input tx \<rparr>))))"

text \<open>
  \<open>ParseAssetTransaction\<close>. The chain is: input type 0; else destination QUTIL (with a
  switch that only has the case 1); else destination QX (with a switch that only has the
  case 2); whatever leaves the chain without returning ends in \<open>ErrNotValidTransaction\<close>.
\<close>

definition ParseAssetTransaction :: "Lib \<Rightarrow> Transaction \<Rightarrow> error + TransactionWithAssetPayload" where
  "ParseAssetTransaction lib tx =
     (case txToLeanTransaction lib tx of
        Inl err \<Rightarrow> Inl (Wrap err ''converting to proto'')
      | Inr transaction \<Rightarrow>
          if InputType tx = 0 then
            Inr \<lparr> ta_Transaction = transaction,
                  ta_QxTransferAssetPayload = None, ta_SendManyTransaction = None \<rparr>
          else if lt_DestId transaction = SMART_CONTRACT_QUTIL then
            (if InputType tx = 1 then
               (if lt_DestId transaction \<noteq> QutilAddress lib then Inl ErrNotValidTransaction
                else
                  (case SendMany_UnmarshallBinary lib (Input tx) of
                     Some err \<Rightarrow> Inl ErrNotValidTransaction
                   | None \<Rightarrow>
                  (case SendMany_GetTransfers lib (Input tx) of
                     Inl err \<Rightarrow> Inl ErrNotValidTransaction
                   | Inr transfers \<Rightarrow>
                       Inr \<lparr> ta_Transaction = transaction,
                             ta_QxTransferAssetPayload = None,
                             ta_SendManyTransaction = Some
                               \<lparr> sm_SourceId = lt_SourceId transaction,
                                 sm_Transfers =
                                   map (\<lambda>(addressID, amount).
                                          \<lparr> smt_DestId = addressID, smt_Amount = amount \<rparr>) transfers,
                                 sm_TotalAmount = SendMany_GetTotalAmount lib (Input tx),
                                 sm_TickNumber = Tick tx,
                                 sm_TxId = lt_TxId transaction,
                                 sm_SignatureHex = [] \<rparr> \<rparr>)))
             else Inl ErrNotValidTransaction)
          else if lt_DestId transaction = SMART_CONTRACT_QX then
            (if InputType tx = 2 then
               (case UnmarshalBinary zero_input (Input tx) of
                  Inl err \<Rightarrow> Inl ErrNotValidTransaction
                | Inr transferAssetOwnershipAndPossessionInput \<Rightarrow>
               (case GetAssetTransfer (FromPubKey lib) transferAssetOwnershipAndPossessionInput of
                  Inl err \<Rightarrow> Inl ErrNotValidTransaction
                | Inr transferPayload \<Rightarrow>
                    Inr \<lparr> ta_Transaction = transaction,
                          ta_QxTransferAssetPayload = Some transferPayload,
                          ta_SendManyTransaction = None \<rparr>))
             else Inl ErrNotValidTransaction)
          else Inl ErrNotValidTransaction)"

text \<open>\<open>if !seen[x] { result = append(result, x); seen[x] = true }\<close>\<close>

definition add_unseen :: "string list \<times> string set \<Rightarrow> string \<Rightarrow> string list \<times> string set" where
  "add_unseen rs x =
     (case rs of (result, seen) \<Rightarrow>
        if x \<notin> seen then (result @ [x], insert x seen) else (result, seen))"

definition findTransactionParticipants :: "TransactionWithAssetPayload \<Rightarrow> error + string list" where
  "findTransactionParticipants tx =
     (if lt_InputType (ta_Transaction tx) = 0 then
        Inr (fst (add_unseen (add_unseen ([], {}) (lt_SourceId (ta_Transaction tx)))
                    (lt_DestId (ta_Transaction tx))))
      else if lt_DestId (ta_Transaction tx) = SMART_CONTRACT_QUTIL then
        (if lt_InputType (ta_Transaction tx) = 1 then
           (case ta_SendManyTransaction tx of
              None \<Rightarrow> Inl (New ''send many payload is nil'')
            | Some sm \<Rightarrow>
                Inr (fst (fold (\<lambda>transfer rs. add_unseen rs (smt_DestId transfer))
                            (sm_Transfers sm) (add_unseen ([], {}) (sm_SourceId sm)))))
         else Inr [])
      else if lt_DestId (ta_Transaction tx) = SMART_CONTRACT_QX then
        (if lt_InputType (ta_Transaction tx) = 2 then
           (case ta_QxTransferAssetPayload tx of
              None \<Rightarrow> Inl (New ''qx transfer asset payload is nil'')
            | Some payload \<Rightarrow>
                Inr (fst (add_unseen (add_unseen ([], {}) (lt_SourceId (ta_Transaction tx)))
                            (pl_DestId payload))))
         else Inr [])
      else Inr [])"

definition findTransactionCurrency :: "TransactionWithAssetPayload \<Rightarrow> error + TransactionCurrency" where
  "findTransactionCurrency tx =
     (if lt_InputType (ta_Transaction tx) = 0 then
        Inr \<lparr> cur_AssetIssuer = NATIVE_QUBIC_ASSET_ISSUER, cur_AssetName = NATIVE_QUBIC_ASSET_NAME \<rparr>
      else if lt_DestId (ta_Transaction tx) = SMART_CONTRACT_QUTIL then
        (if lt_InputType (ta_Transaction tx) = 1 then
           (case ta_SendManyTransaction tx of
              None \<Rightarrow> Inl (New ''send many payload is nil'')
            | Some sm \<Rightarrow>
                Inr \<lparr> cur_AssetIssuer = NATIVE_QUBIC_ASSET_ISSUER,
                      cur_AssetName = NATIVE_QUBIC_ASSET_NAME \<rparr>)
         else Inl ErrNotValidTransaction)
      else if lt_DestId (ta_Transaction tx) = SMART_CONTRACT_QX then
        (if lt_InputType (ta_Transaction tx) = 2 then
           (case ta_QxTransferAssetPayload tx of
              None \<Rightarrow> Inl (New ''qx transfer asset payload is nil'')
            | Some payload \<Rightarrow>
                Inr \<lparr> cur_AssetIssuer = pl_Issuer payload, cur_AssetName = pl_AssetName payload \<rparr>)
         else Inl ErrNotValidTransaction)
      else Inl ErrNotValidTransaction)"

definition FindTransactionIdParticipantsAndCurrency ::
  "TransactionWithAssetPayload \<Rightarrow> error + TransactionIdParticipantsAndCurrency" where
  "FindTransactionIdParticipantsAndCurrency tx =
     (case findTransactionParticipants tx of
        Inl err \<Rightarrow>
          (if err = ErrNotValidTransaction then Inl err else Inl (Wrap err ''reading participants''))
      | Inr participants \<Rightarrow>
     (case findTransactionCurrency tx of
        Inl err \<Rightarrow>
          (if err = ErrNotValidTransaction then Inl err else Inl (Wrap err ''reading currency''))
      | Inr currency \<Rightarrow>
          Inr \<lparr> pc_TxId = lt_TxId (ta_Transaction tx),
                pc_Currency = currency,
                pc_Identities = participants \<rparr>))"

section \<open>validator/tx: the per-identity-per-asset index\<close>

fun removeNonTransactionWithAssetPayloadsAndConvert_loop ::
  "Lib \<Rightarrow> TransactionWithAssetPayload list \<Rightarrow> Transaction list \<Rightarrow>
     error + TransactionWithAssetPayload list" where
  "removeNonTransactionWithAssetPayloadsAndConvert_loop lib transactionWithAssetPayloads [] =
     Inr transactionWithAssetPayloads"
| "removeNonTransactionWithAssetPayloadsAndConvert_loop lib transactionWithAssetPayloads (tx # rest) =
     (case ParseAssetTransaction lib tx of
        Inl err \<Rightarrow>
          (if err = ErrNotValidTransaction
           then removeNonTransactionWithAssetPayloadsAndConvert_loop lib
                  transactionWithAssetPayloads rest
           else Inl (Wrap err ''parse asset transaction''))
      | Inr transactionWithAssetPayload \<Rightarrow>
          removeNonTransactionWithAssetPayloadsAndConvert_loop lib
            (transactionWithAssetPayloads @ [transactionWithAssetPayload]) rest)"

definition removeNonTransactionWithAssetPayloadsAndConvert ::
  "Lib \<Rightarrow> Transaction list \<Rightarrow> error + TransactionWithAssetPayload list" where
  "removeNonTransactionWithAssetPayloadsAndConvert lib transactions =
     removeNonTransactionWithAssetPayloadsAndConvert_loop lib [] transactions"

text \<open>
  \<open>createIdentityMap\<close>: identity, then asset id (issuer followed by name), then the
  transaction ids in the order they were appended.
\<close>

fun createIdentityMap_participants ::
  "string \<Rightarrow> string \<Rightarrow> (string \<rightharpoonup> (string \<rightharpoonup> string list)) \<Rightarrow> string list \<Rightarrow>
     (string \<rightharpoonup> (string \<rightharpoonup> string list))" where
  "createIdentityMap_participants assetId txId identityMap [] = identityMap"
| "createIdentityMap_participants assetId txId identityMap (identity # rest) =
     (let m1 = (if identityMap identity = None
                then identityMap(identity \<mapsto> Map.empty) else identityMap);
          inner = (case m1 identity of None \<Rightarrow> Map.empty | Some a \<Rightarrow> a);
          m2 = m1(identity \<mapsto> inner(assetId \<mapsto> slice_at inner assetId @ [txId]))
      in createIdentityMap_participants assetId txId m2 rest)"

fun createIdentityMap_loop ::
  "(string \<rightharpoonup> (string \<rightharpoonup> string list)) \<Rightarrow> TransactionWithAssetPayload list \<Rightarrow>
     error + (string \<rightharpoonup> (string \<rightharpoonup> string list))" where
  "createIdentityMap_loop identityMap [] = Inr identityMap"
| "createIdentityMap_loop identityMap (tx # rest) =
     (case FindTransactionIdParticipantsAndCurrency tx of
        Inl err \<Rightarrow>
          (if err = ErrNotValidTransaction then createIdentityMap_loop identityMap rest
           else Inl (Wrap err ''finding transaction id, particpants and currency''))
      | Inr transactionData \<Rightarrow>
          createIdentityMap_loop
            (createIdentityMap_participants
               (cur_AssetIssuer (pc_Currency transactionData) @
                  cur_AssetName (pc_Currency transactionData))
               (lt_TxId (ta_Transaction tx)) identityMap (pc_Identities transactionData))
            rest)"

definition createIdentityMap ::
  "TransactionWithAssetPayload list \<Rightarrow> error + (string \<rightharpoonup> (string \<rightharpoonup> string list))" where
  "createIdentityMap txs = createIdentityMap_loop Map.empty txs"

section \<open>store: the records and the key-value store\<close>

record ProcessedTick =
  pt_TickNumber :: uint32
  pt_Epoch :: uint32

record ProcessedTickInterval =
  InitialProcessedTick :: uint32
  LastProcessedTick :: uint32

record ProcessedTickIntervalsPerEpoch =
  ptie_Epoch :: uint32
  Intervals :: "ProcessedTickInterval list"

record TransactionStatus =
  ts_TxId :: string
  MoneyFlew :: bool

record ProtoTickData =
  ptd_Epoch :: uint32
  ptd_TickNumber :: uint32
  ptd_Timestamp :: uint64
  ptd_TransactionIds :: "string list"

record Computors =
  comp_Epoch :: uint32
  comp_PubKeys :: "byte list list"
  comp_Signature :: "byte list"

text \<open>
  A quorum vote: of the digest tuple the votes are grouped by, the transaction digest is a
  field of its own and the ten other digests are kept as a list.
\<close>

record QuorumTickVote =
  qv_Epoch :: uint32
  qv_Tick :: uint32
  qv_ComputorIndex :: uint16
  qv_TxDigest :: "byte list"
  qv_OtherDigests :: "byte list list"
  qv_Signature :: "byte list"

text \<open>
  The store holds one table per key prefix, with the records already decoded: the failures
  of the storage engine and of the protobuf codec are outside the model, and the last
  processed tick is held in its framed form. A point lookup that finds nothing is \<open>None\<close>.
  The per-identity-per-asset index is the only prefix the code iterates; it is kept as the
  list of its key-value pairs, the key being identity, asset id and tick.
\<close>

record PebbleStore =
  st_TickData :: "uint32 \<rightharpoonup> ProtoTickData"
  st_QuorumData :: "uint32 \<rightharpoonup> QuorumTickVote list"
  st_Computors :: "uint32 \<rightharpoonup> Computors"
  st_TickTx :: "string \<rightharpoonup> ProtoTransaction"
  st_TxStatus :: "string \<rightharpoonup> TransactionStatus"
  st_LastProcessedTick :: "ProcessedTick option"
  st_LastProcessedTickPerEpoch :: "uint32 \<rightharpoonup> uint32"
  st_ProcessedTickIntervals :: "uint32 \<rightharpoonup> ProcessedTickIntervalsPerEpoch"
  st_EmptyTicksPerEpoch :: "uint32 \<rightharpoonup> uint32"
  st_IdentityAssetTransactions :: "((string \<times> string \<times> uint32) \<times> string list) list"

definition GetTickData :: "PebbleStore \<Rightarrow> uint32 \<Rightarrow> error + ProtoTickData" where
  "GetTickData s tickNumber =
     (case st_TickData s tickNumber of None \<Rightarrow> Inl ErrNotFound | Some td \<Rightarrow> Inr td)"

definition SetTickData :: "PebbleStore \<Rightarrow> uint32 \<Rightarrow> ProtoTickData \<Rightarrow> error + PebbleStore" where
  "SetTickData s tickNumber td = Inr (s\<lparr> st_TickData := (st_TickData s)(tickNumber \<mapsto> td) \<rparr>)"

definition GetComputors :: "PebbleStore \<Rightarrow> uint32 \<Rightarrow> error + Computors" where
  "GetComputors s epoch =
     (case st_Computors s epoch of None \<Rightarrow> Inl ErrNotFound | Some computors \<Rightarrow> Inr computors)"

definition SetComputors :: "PebbleStore \<Rightarrow> uint32 \<Rightarrow> Computors \<Rightarrow> error + PebbleStore" where
  "SetComputors s epoch computors =
     Inr (s\<lparr> st_Computors := (st_Computors s)(epoch \<mapsto> computors) \<rparr>)"

definition GetTransaction :: "PebbleStore \<Rightarrow> string \<Rightarrow> error + ProtoTransaction" where
  "GetTransaction s txID =
     (case st_TickTx s txID of None \<Rightarrow> Inl ErrNotFound | Some tx \<Rightarrow> Inr tx)"

definition GetTransactionStatus :: "PebbleStore \<Rightarrow> string \<Rightarrow> error + TransactionStatus" where
  "GetTransactionStatus s txID =
     (case st_TxStatus s txID of None \<Rightarrow> Inl ErrNotFound | Some ts \<Rightarrow> Inr ts)"

definition GetLastProcessedTick :: "PebbleStore \<Rightarrow> error + ProcessedTick" where
  "GetLastProcessedTick s =
     (case st_LastProcessedTick s of None \<Rightarrow> Inl ErrNotFound | Some lpt \<Rightarrow> Inr lpt)"



section \<open>store: the processed-tick intervals\<close>

definition getProcessedTickIntervalsPerEpoch ::
  "PebbleStore \<Rightarrow> uint32 \<Rightarrow> error + ProcessedTickIntervalsPerEpoch" where
  "getProcessedTickIntervalsPerEpoch s epoch =
     (case st_ProcessedTickIntervals s epoch of
        None \<Rightarrow> Inr \<lparr> ptie_Epoch = epoch, Intervals = [] \<rparr>
      | Some ptie \<Rightarrow> Inr ptie)"

definition SetProcessedTickIntervalPerEpoch ::
  "PebbleStore \<Rightarrow> uint32 \<Rightarrow> ProcessedTickIntervalsPerEpoch \<Rightarrow> error + PebbleStore" where
  "SetProcessedTickIntervalPerEpoch s epoch ptie =
     Inr (s\<lparr> st_ProcessedTickIntervals := (st_ProcessedTickIntervals s)(epoch \<mapsto> ptie) \<rparr>)"

text \<open>
  \<open>SetLastProcessedTick\<close>: the batch with the per-epoch and the global last tick is committed
  first; then the epoch's interval list is read, given a first interval when it is empty
  or else its last interval's end is overwritten, and written back.
\<close>

definition SetLastProcessedTick :: "PebbleStore \<Rightarrow> ProcessedTick \<Rightarrow> error + PebbleStore" where
  "SetLastProcessedTick s lastProcessedTick =
     (let s1 = s\<lparr> st_LastProcessedTickPerEpoch :=
                    (st_LastProcessedTickPerEpoch s)
                      (pt_Epoch lastProcessedTick \<mapsto> pt_TickNumber lastProcessedTick),
                  st_LastProcessedTick := Some lastProcessedTick \<rparr>
      in case getProcessedTickIntervalsPerEpoch s1 (pt_Epoch lastProcessedTick) of
           Inl err \<Rightarrow> Inl (Wrap err ''getting ptie'')
         | Inr ptie \<Rightarrow>
             (let ptie' =
                (if length (Intervals ptie) = 0
                 then \<lparr> ptie_Epoch = pt_Epoch lastProcessedTick,
                        Intervals = [\<lparr> InitialProcessedTick = pt_TickNumber lastProcessedTick,
                                       LastProcessedTick = pt_TickNumber lastProcessedTick \<rparr>] \<rparr>
                 else ptie\<lparr> Intervals :=
                        (Intervals ptie)[length (Intervals ptie) - 1 :=
                           (Intervals ptie ! (length (Intervals ptie) - 1))
                             \<lparr> LastProcessedTick := pt_TickNumber lastProcessedTick \<rparr>] \<rparr>)
              in case SetProcessedTickIntervalPerEpoch s1 (pt_Epoch lastProcessedTick) ptie' of
                   Inl err \<Rightarrow> Inl (Wrap err ''setting ptie'')
                 | Inr s2 \<Rightarrow> Inr s2))"

definition AppendProcessedTickInterval ::
  "PebbleStore \<Rightarrow> uint32 \<Rightarrow> ProcessedTickInterval \<Rightarrow> error + PebbleStore" where
  "AppendProcessedTickInterval s epoch pti =
     (case getProcessedTickIntervalsPerEpoch s epoch of
        Inl err \<Rightarrow> Inl (Wrap err ''getting existing processed tick intervals'')
      | Inr existing \<Rightarrow>
          (case SetProcessedTickIntervalPerEpoch s epoch
                  (existing\<lparr> Intervals := Intervals existing @ [pti] \<rparr>) of
             Inl err \<Rightarrow> Inl (Wrap err ''setting ptie'')
           | Inr s' \<Rightarrow> Inr s'))"

section \<open>store: the reverse asset-transaction reader\<close>

text \<open>The \<open>Payload\<close> field of the result is never set by the reader and is left out.\<close>

record IdetityAssetTransactions =
  iat_Transaction :: ProtoTransaction
  iat_MoneyFlew :: bool
  iat_Timestamp :: uint64

text \<open>
  The iterator over \<open>[key(identity, assetId, 0), key(identity, assetId, endTick + 1))\<close>, read
  from \<open>Last()\<close> with \<open>Prev()\<close>: the entries of that identity and asset whose tick is below
  \<open>endTick + 1\<close>, highest tick first. The sum \<open>endTick + 1\<close> is a \<open>uint32\<close> and wraps.
\<close>

definition iterate_from_end ::
  "PebbleStore \<Rightarrow> string \<Rightarrow> string \<Rightarrow> uint32 \<Rightarrow> (uint32 \<times> string list) list" where
  "iterate_from_end s identity assetId endTick =
     rev (sort_key fst
       (map (\<lambda>((i, a, t), ids). (t, ids))
          (filter (\<lambda>((i, a, t), ids). i = identity \<and> a = assetId \<and> t < endTick + 1)
             (st_IdentityAssetTransactions s))))"

text \<open>
  The inner loop \<open>for i := txnIndexStart; i < len(perTick.Transactions); i++\<close>. It either
  returns from the reader, with the page and the next index, or falls through with the
  transactions collected so far. The index is a Go \<open>int\<close>; a negative one panics at the
  first slice access.
\<close>

datatype inner_result =
    Returned "IdetityAssetTransactions list" uint32
  | Exhausted "IdetityAssetTransactions list"

function inner_loop ::
  "PebbleStore \<Rightarrow> bool \<Rightarrow> int \<Rightarrow> uint32 \<Rightarrow> string list \<Rightarrow> int \<Rightarrow>
     IdetityAssetTransactions list \<Rightarrow> uint32 \<Rightarrow> error + inner_result" where
  "inner_loop s includeFailedTransactions maxTransactions tickNumber perTick i transactions
       nextTxnIndexStart =
     (if i < int (length perTick) then
        (if i < 0 then Inl (Panic ''index out of range'')
         else
           (let transactionId = perTick ! nat i in
            case GetTransactionStatus s transactionId of
              Inl err \<Rightarrow> Inl (Wrap err ''getting transaction status'')
            | Inr txStatus \<Rightarrow>
                if \<not> includeFailedTransactions \<and> \<not> MoneyFlew txStatus
                then inner_loop s includeFailedTransactions maxTransactions tickNumber perTick
                       (i + 1) transactions nextTxnIndexStart
                else
                  (case GetTransaction s transactionId of
                     Inl err \<Rightarrow> Inl (Wrap err ''get transaction by id'')
                   | Inr transaction \<Rightarrow>
                  (case GetTickData s tickNumber of
                     Inl err \<Rightarrow> Inl (Wrap err ''getting tick data'')
                   | Inr tickData \<Rightarrow>
                       (let transactions' = transactions @
                              [\<lparr> iat_Transaction = transaction,
                                 iat_MoneyFlew = MoneyFlew txStatus,
                                 iat_Timestamp = ptd_Timestamp tickData \<rparr>]
                        in if int (length transactions') \<ge> maxTransactions
                           then Inr (Returned transactions'
                                  (if i < int (length perTick) - 1 then word_of_int (i + 1)
                                   else nextTxnIndexStart))
                           else inner_loop s includeFailedTransactions maxTransactions tickNumber
                                  perTick (i + 1) transactions' nextTxnIndexStart)))))
      else Inr (Exhausted transactions))"
  by pat_completeness auto
termination
  by (relation "measure (\<lambda>(s, f, m, t, perTick, i, acc, n). nat (int (length perTick) - i))") auto

declare inner_loop.simps [simp del]

text \<open>
  The outer loop over the iterator. \<open>nextEndTick\<close> is set to the tick of the entry; the
  first entry is skipped when the start index is past its end; the ids are reversed; after
  the first entry the start index is 0; when the inner loop falls through, \<open>nextEndTick\<close> is
  decremented (if positive) and the next index reset.
\<close>

fun outer_loop ::
  "PebbleStore \<Rightarrow> bool \<Rightarrow> int \<Rightarrow> uint32 \<Rightarrow> (uint32 \<times> string list) list \<Rightarrow> bool \<Rightarrow> int \<Rightarrow>
     IdetityAssetTransactions list \<Rightarrow> uint32 \<Rightarrow> uint32 \<Rightarrow>
     error + (IdetityAssetTransactions list \<times> uint32 \<times> uint32 \<times> uint32)" where
  "outer_loop s includeFailedTransactions maxTransactions lastTick [] firstTick txnIndexStart
       transactions nextEndTick nextTxnIndexStart =
     Inr (transactions, nextEndTick, nextTxnIndexStart, lastTick)"
| "outer_loop s includeFailedTransactions maxTransactions lastTick ((tickNumber, ids) # rest)
       firstTick txnIndexStart transactions nextEndTick nextTxnIndexStart =
     (if firstTick \<and> txnIndexStart \<ge> int (length ids)
      then outer_loop s includeFailedTransactions maxTransactions lastTick rest False
             txnIndexStart transactions tickNumber nextTxnIndexStart
      else
        (let perTick = rev ids;
             txnIndexStart' = (if \<not> firstTick then 0 else txnIndexStart)
         in case inner_loop s includeFailedTransactions maxTransactions tickNumber perTick
                   txnIndexStart' transactions nextTxnIndexStart of
              Inl err \<Rightarrow> Inl err
            | Inr (Returned transactions' nextTxnIndexStart') \<Rightarrow>
                Inr (transactions', tickNumber, nextTxnIndexStart', lastTick)
            | Inr (Exhausted transactions') \<Rightarrow>
                (if tickNumber > 0
                 then outer_loop s includeFailedTransactions maxTransactions lastTick rest False
                        txnIndexStart' transactions' (tickNumber - 1) 0
                 else outer_loop s includeFailedTransactions maxTransactions lastTick rest False
                        txnIndexStart' transactions' tickNumber nextTxnIndexStart)))"

definition GetIdetityAssetTransactionsFromEnd ::
  "PebbleStore \<Rightarrow> bool \<Rightarrow> string \<Rightarrow> string \<Rightarrow> uint32 \<Rightarrow> int \<Rightarrow> int \<Rightarrow>
     error + (IdetityAssetTransactions list \<times> uint32 \<times> uint32 \<times> uint32)" where
  "GetIdetityAssetTransactionsFromEnd s includeFailedTransactions identity assetId endTick
       txnIndexStart maxTransactions =
     (case GetLastProcessedTick s of
        Inl err \<Rightarrow> Inl (Wrap err ''fetching last processed tick'')
      | Inr lastProcessedTick \<Rightarrow>
          (let endTick' = (if endTick = 0 then pt_TickNumber lastProcessedTick else endTick);
               maxTransactions' = (if maxTransactions = 0 then 1000 else maxTransactions)
           in outer_loop s includeFailedTransactions maxTransactions'
                (pt_TickNumber lastProcessedTick)
                (iterate_from_end s identity assetId endTick')
                True txnIndexStart [] 0 0))"

text \<open>
  A client that pages through the history: it feeds the returned \<open>(nextEndTick, nextIndex)\<close>
  into the next call and concatenates the pages, for at most \<open>n\<close> calls; it stops at an
  empty page or an error.
\<close>

fun pages ::
  "nat \<Rightarrow> PebbleStore \<Rightarrow> bool \<Rightarrow> string \<Rightarrow> string \<Rightarrow> uint32 \<Rightarrow> uint32 \<Rightarrow> int \<Rightarrow>
     IdetityAssetTransactions list" where
  "pages 0 s includeFailedTransactions identity assetId endTick startIndex limit = []"
| "pages (Suc n) s includeFailedTransactions identity assetId endTick startIndex limit =
     (case GetIdetityAssetTransactionsFromEnd s includeFailedTransactions identity assetId
             endTick (uint startIndex) limit of
        Inl err \<Rightarrow> []
      | Inr (page, nextEndTick, nextIndex, lastTick) \<Rightarrow>
          if page = [] then []
          else page @ pages n s includeFailedTransactions identity assetId
                        nextEndTick nextIndex limit)"

section \<open>validator: ValidateTick\<close>

text \<open>The source node, as the answers it gives to the four requests of \<open>ValidateTick\<close>.\<close>

record Node =
  GetQuorumVotes :: "uint32 \<Rightarrow> error + QuorumTickVote list"
  node_GetComputors :: "error + Computors"
  node_GetTickData :: "uint32 \<Rightarrow> error + TickData"
  GetTickTransactions :: "uint32 \<Rightarrow> error + Transaction list"

text \<open>
  The validators and the writers of the quorum, tick and transaction packages are not under
  \<open>src/\<close> in the form \<open>ValidateTick\<close> calls them; they are parameters.
\<close>

record Checks =
  computors_Validate :: "Computors \<Rightarrow> error option"
  quorum_Validate :: "QuorumTickVote list \<Rightarrow> Computors \<Rightarrow> error option"
  tick_Validate :: "TickData \<Rightarrow> QuorumTickVote \<Rightarrow> Computors \<Rightarrow> error option"
  tx_Validate :: "Transaction list \<Rightarrow> TickData \<Rightarrow> error + Transaction list"
  quorum_Store :: "PebbleStore \<Rightarrow> QuorumTickVote list \<Rightarrow> error + PebbleStore"
  tick_Store :: "PebbleStore \<Rightarrow> TickData \<Rightarrow> error + PebbleStore"
  tx_Store :: "PebbleStore \<Rightarrow> Transaction list \<Rightarrow> error + PebbleStore"

text \<open>\<open>errors.Cause\<close>: the innermost wrapped error.\<close>

fun Cause :: "error \<Rightarrow> error" where
  "Cause (Wrap err msg) = Cause err"
| "Cause err = err"

text \<open>
  Modelled from the spec: \<open>computors.Get\<close> and \<open>computors.Store\<close> of the package
  \<open>validator/computors\<close>, which is not under \<open>src/\<close>. The specification (4.3): "On first
  sighting in an epoch, persist the list under \<open>Computors|epoch\<close>; subsequent ticks in that
  epoch read it back." They are the store's \<open>GetComputors\<close> and \<open>SetComputors\<close> at the
  epoch.
\<close>

definition computors_Get :: "PebbleStore \<Rightarrow> uint32 \<Rightarrow> error + Computors" where
  "computors_Get s epoch =
     (case GetComputors s epoch of
        Inl err \<Rightarrow> Inl (Wrap err ''get computors'')
      | Inr comps \<Rightarrow> Inr comps)"

definition computors_Store :: "PebbleStore \<Rightarrow> Computors \<Rightarrow> error + PebbleStore" where
  "computors_Store s comps =
     (case SetComputors s (comp_Epoch comps) comps of
        Inl err \<Rightarrow> Inl (Wrap err ''set computors'')
      | Inr s' \<Rightarrow> Inr s')"

text \<open>Lines 39 to 52: the computors from the store, otherwise from the node.\<close>

definition resolveComputors :: "Node \<Rightarrow> PebbleStore \<Rightarrow> uint32 \<Rightarrow> error + Computors" where
  "resolveComputors qu s epoch =
     (case computors_Get s epoch of
        Inr comps \<Rightarrow> Inr comps
      | Inl err \<Rightarrow>
          if Cause err \<noteq> ErrNotFound then Inl (Wrap err ''getting computors from store'')
          else
            (case node_GetComputors qu of
               Inl err' \<Rightarrow> Inl (Wrap err' ''getting computors from qubic'')
             | Inr comps \<Rightarrow> Inr comps))"

text \<open>
  \<open>ValidateTick\<close> returns an error or \<open>nil\<close>; the store it leaves behind is the second
  component. A writer that fails is taken to leave the store as it found it.
\<close>

definition ValidateTick ::
  "Node \<Rightarrow> Checks \<Rightarrow> PebbleStore \<Rightarrow> uint64 \<Rightarrow> error option \<times> PebbleStore" where
  "ValidateTick qu v s tickNumber =
     (case GetQuorumVotes qu (ucast tickNumber) of
        Inl err \<Rightarrow> (Some (Wrap err ''getting quorum tick data''), s)
      | Inr quorumVotes \<Rightarrow>
     (if length quorumVotes = 0 then (Some (New ''not quorum votes fetched''), s)
      else
     (case resolveComputors qu s (qv_Epoch (quorumVotes ! 0)) of
        Inl err \<Rightarrow> (Some err, s)
      | Inr comps \<Rightarrow>
     (case computors_Validate v comps of
        Some err \<Rightarrow> (Some (Wrap err ''validating comps''), s)
      | None \<Rightarrow>
     (case computors_Store s comps of
        Inl err \<Rightarrow> (Some (Wrap err ''storing computors''), s)
      | Inr s1 \<Rightarrow>
     (case quorum_Validate v quorumVotes comps of
        Some err \<Rightarrow> (Some (Wrap err ''validating quorum''), s1)
      | None \<Rightarrow>
     (if qv_TxDigest (quorumVotes ! 0) = replicate 32 0 then (None, s1)
      else
     (case node_GetTickData qu (ucast tickNumber) of
        Inl err \<Rightarrow> (Some (Wrap err ''getting tick data''), s1)
      | Inr tickData \<Rightarrow>
     (case tick_Validate v tickData (quorumVotes ! 0) comps of
        Some err \<Rightarrow> (Some (Wrap err ''validating tick data''), s1)
      | None \<Rightarrow>
     (case GetTickTransactions qu (ucast tickNumber) of
        Inl err \<Rightarrow> (Some (Wrap err ''getting tick transactions''), s1)
      | Inr transactions \<Rightarrow>
     (case tx_Validate v transactions tickData of
        Inl err \<Rightarrow> (Some (Wrap err ''validating transactions''), s1)
      | Inr validTxs \<Rightarrow>
     (case quorum_Store v s1 quorumVotes of
        Inl err \<Rightarrow> (Some (Wrap err ''storing quorum votes''), s1)
      | Inr s2 \<Rightarrow>
     (case tick_Store v s2 tickData of
        Inl err \<Rightarrow> (Some (Wrap err ''storing tick data''), s2)
      | Inr s3 \<Rightarrow>
     (case tx_Store v s3 validTxs of
        Inl err \<Rightarrow> (Some (Wrap err ''storing transactions''), s3)
      | Inr s4 \<Rightarrow> (None, s4)))))))))))))))"

section \<open>The quorum's agreed digest and the processing of a tick\<close>

text \<open>
  Modelled from the spec: the quorum validator of the package \<open>validator/quorum\<close>, which is
  not under \<open>src/\<close>. The specification (4.4): "1. Reject if fewer than 2/3+1 of the 676
  computors produced votes. 2. Group votes by the digest tuple; require at least one group
  to contain 2/3+1 votes. 3. For every vote in that dominant group, recompute the vote
  digest and verify the vote signature under the computor whose slot index the vote
  carries. Any failure: InvalidQuorum." The signature check is the parameter \<open>verify\<close>. The
  digest the quorum agrees on is the transaction digest of the dominant group.
\<close>

definition MinimumQuorumVotes :: nat where
  "MinimumQuorumVotes = 676 * 2 div 3 + 1"

definition same_digests :: "QuorumTickVote \<Rightarrow> QuorumTickVote \<Rightarrow> bool" where
  "same_digests v w \<longleftrightarrow> qv_TxDigest v = qv_TxDigest w \<and> qv_OtherDigests v = qv_OtherDigests w"

definition dominant_vote :: "QuorumTickVote list \<Rightarrow> QuorumTickVote option" where
  "dominant_vote votes =
     find (\<lambda>v. MinimumQuorumVotes \<le> length (filter (same_digests v) votes)) votes"

definition quorum_agreed_TxDigest :: "QuorumTickVote list \<Rightarrow> byte list option" where
  "quorum_agreed_TxDigest votes =
     (case dominant_vote votes of None \<Rightarrow> None | Some v \<Rightarrow> Some (qv_TxDigest v))"

definition quorum_Validate_spec ::
  "(QuorumTickVote \<Rightarrow> Computors \<Rightarrow> bool) \<Rightarrow> QuorumTickVote list \<Rightarrow> Computors \<Rightarrow> error option" where
  "quorum_Validate_spec verify votes comps =
     (if length votes < MinimumQuorumVotes then Some (New ''InvalidQuorum'')
      else
        (case dominant_vote votes of
           None \<Rightarrow> Some (New ''InvalidQuorum'')
         | Some v \<Rightarrow>
             if list_all (\<lambda>w. verify w comps) (filter (same_digests v) votes) then None
             else Some (New ''InvalidQuorum'')))"




section \<open>The specification's wording, for comparison\<close>

text \<open>
  The asset name as the specification words it: the little-endian bytes with the trailing
  zero bytes stripped (and nothing else).
\<close>

definition trailing_zeros_stripped :: "byte list \<Rightarrow> byte list" where
  "trailing_zeros_stripped bs = rev (dropWhile (\<lambda>b. b = 0) (rev bs))"

text \<open>
  "Non-overlapping, ascending \<open>[lo,hi]\<close> ranges": every range has \<open>lo \<le> hi\<close> and ends before
  the next one starts.
\<close>

fun non_overlapping_ascending :: "ProcessedTickInterval list \<Rightarrow> bool" where
  "non_overlapping_ascending [] = True"
| "non_overlapping_ascending [i] = (InitialProcessedTick i \<le> LastProcessedTick i)"
| "non_overlapping_ascending (i # j # rest) =
     (InitialProcessedTick i \<le> LastProcessedTick i \<and>
      LastProcessedTick i < InitialProcessedTick j \<and>
      non_overlapping_ascending (j # rest))"

section \<open>Concrete inputs\<close>

text \<open>A toy instance of the library: an identity text has one letter per key byte.\<close>

definition toy_identity :: from_pub_key where
  "toy_identity k lower = Inr (map (\<lambda>b. if b = 0 then CHR ''A'' else CHR ''B'') k)"

definition lib0 :: Lib where
  "lib0 = \<lparr> FromPubKey = toy_identity,
            Digest = (\<lambda>t. Inr (Input t)),
            ID = (\<lambda>t. toy_identity (Input t) True),
            MarshallBinary = (\<lambda>t. Inr (Input t @ Signature t)),
            K12Hash = (\<lambda>bs. Inr bs),
            QutilAddress = ''EAAAAAAAAAAAAAAAAAAAAAAAAAAAAAAAAAAAAAAAAAAAAAAAAAAAAAAAVWRF'',
            SendMany_UnmarshallBinary = (\<lambda>bs. None),
            SendMany_GetTransfers = (\<lambda>bs. Inr []),
            SendMany_GetTotalAmount = (\<lambda>bs. 0) \<rparr>"

text \<open>A transfer of 5 units from the key \<open>[1]\<close> to itself, and its protobuf form.\<close>

definition tx_self :: Transaction where
  "tx_self = \<lparr> SourcePublicKey = [1], DestinationPublicKey = [1], Amount = 5, Tick = 7,
               InputType = 0, InputSize = 0, Input = [], Signature = [] \<rparr>"

definition ptx_self :: ProtoTransaction where
  "ptx_self = \<lparr> pb_SourceId = ''B'', pb_DestId = ''B'', pb_Amount = 5, pb_TickNumber = 7,
                pb_InputType = 0, pb_InputSize = 0, pb_InputHex = [], pb_SignatureHex = [],
                pb_TxId = [] \<rparr>"

text \<open>An asset transfer whose new owner is the source, and the transfer built from it.\<close>

definition qtx_self :: QxTransactionWithTransferAssetPayload where
  "qtx_self = \<lparr> qt_Transaction = tx_self,
                qt_TransferPayload = \<lparr> pl_Issuer = ''A'', pl_DestId = ''B'',
                                       pl_AssetName = ''CFB'', pl_Amount = - 1 \<rparr> \<rparr>"

definition at_self :: QxAssetTransfer where
  "at_self = \<lparr> at_AssetIssuer = ''A'', at_AssetName = ''CFB'', at_SourceId = ''B'',
               at_DestId = ''B'', at_Amount = - 1, at_TxId = [], at_TickNumber = 7 \<rparr>"

text \<open>A payload input whose asset name has a zero byte in front of the letter A.\<close>

definition input_0x4100 :: QxTransferAssetOwnershipAndPossessionInput where
  "input_0x4100 = \<lparr> Issuer = replicate 32 0, NewOwnerAndPossessor = replicate 32 1,
                    AssetName = 0x4100, NumberOfUnits = - 5 \<rparr>"

text \<open>A signature verifier that accepts, a tick body without digests and one with a digest listed twice.\<close>

definition sv_accept :: SigVerifierFunc where
  "sv_accept pk digest sig = None"

definition td_zero :: TickData where
  "td_zero = \<lparr> td_Epoch = 1, td_Tick = 7, td_Timestamp = 0,
               TransactionDigests = [replicate 32 0, replicate 32 0] \<rparr>"

definition td_one :: TickData where
  "td_one = \<lparr> td_Epoch = 1, td_Tick = 7, td_Timestamp = 0,
              TransactionDigests = [replicate 32 1, replicate 32 0, replicate 32 1] \<rparr>"

text \<open>
  A library instance whose identity texts have one letter per key byte, except for the key
  of the exchange contract (the contract index 1 in 32 bytes), whose text is the contract's
  identity; the digest of a transaction is 32 fours. Three signed transactions of input
  type 2 from the key of 32 twos: to the exchange contract with an empty input, to the
  exchange contract with the 80-byte payload that transfers 5 units of the asset CFB of
  the issuer of 32 zeros to the key of 32 ones, and with that payload to the key of 32
  threes.
\<close>

definition qx_key :: "byte list" where
  "qx_key = 1 # replicate 31 0"

definition letters_identity :: from_pub_key where
  "letters_identity k lower =
     (if k = qx_key then Inr SMART_CONTRACT_QX
      else Inr (map (\<lambda>b. if b = 0 then CHR ''A'' else if b = 1 then CHR ''B''
                         else if b = 2 then CHR ''C'' else if b = 3 then CHR ''D''
                         else CHR ''E'') k))"

definition lib_qx :: Lib where
  "lib_qx = lib0 \<lparr> FromPubKey := letters_identity, Digest := (\<lambda>t. Inr (replicate 32 4)) \<rparr>"

definition input_cfb :: QxTransferAssetOwnershipAndPossessionInput where
  "input_cfb = \<lparr> Issuer = replicate 32 0, NewOwnerAndPossessor = replicate 32 1,
                 AssetName = 0x424643, NumberOfUnits = 5 \<rparr>"

definition tx_qx_transfer :: Transaction where
  "tx_qx_transfer = \<lparr> SourcePublicKey = replicate 32 2, DestinationPublicKey = qx_key,
                      Amount = 0, Tick = 7, InputType = 2, InputSize = 80,
                      Input = replicate 32 0 @ replicate 32 1 @ PutUint64 0x424643 @ PutUint64 5,
                      Signature = replicate 64 0 \<rparr>"

definition tx_qx_short :: Transaction where
  "tx_qx_short = tx_qx_transfer \<lparr> InputSize := 0, Input := [] \<rparr>"

definition tx_other_dest :: Transaction where
  "tx_other_dest = tx_qx_transfer \<lparr> DestinationPublicKey := replicate 32 3 \<rparr>"

text \<open>
  The payload of that transfer in text form, the transfer of the older path built from
  \<open>tx_other_dest\<close> at tick 7, and its stored form.
\<close>

definition payload_cfb :: QxTransferAssetPayload where
  "payload_cfb = \<lparr> pl_Issuer = replicate 32 CHR ''A'', pl_DestId = replicate 32 CHR ''B'',
                   pl_AssetName = ''CFB'', pl_Amount = 5 \<rparr>"

definition at_other :: QxAssetTransfer where
  "at_other = \<lparr> at_AssetIssuer = replicate 32 CHR ''A'', at_AssetName = ''CFB'',
                at_SourceId = replicate 32 CHR ''C'', at_DestId = replicate 32 CHR ''B'',
                at_Amount = 5, at_TxId = replicate 32 CHR ''E'', at_TickNumber = 7 \<rparr>"

definition db_other :: QxAssetTransferDB where
  "db_other = \<lparr> db_SourceId = replicate 32 CHR ''C'', db_DestId = replicate 32 CHR ''B'',
                db_Amount = 5, db_TxId = replicate 32 CHR ''E'' \<rparr>"

text \<open>
  The empty store, and a store of epoch 1 whose only processed interval is \<open>[10,12]\<close>.
\<close>

definition empty_store :: PebbleStore where
  "empty_store = \<lparr> st_TickData = Map.empty, st_QuorumData = Map.empty, st_Computors = Map.empty,
                   st_TickTx = Map.empty, st_TxStatus = Map.empty, st_LastProcessedTick = None,
                   st_LastProcessedTickPerEpoch = Map.empty,
                   st_ProcessedTickIntervals = Map.empty, st_EmptyTicksPerEpoch = Map.empty,
                   st_IdentityAssetTransactions = [] \<rparr>"

definition store_10_12 :: PebbleStore where
  "store_10_12 = empty_store
     \<lparr> st_LastProcessedTick := Some \<lparr> pt_TickNumber = 12, pt_Epoch = 1 \<rparr>,
       st_LastProcessedTickPerEpoch := [1 \<mapsto> 12],
       st_ProcessedTickIntervals :=
         [1 \<mapsto> \<lparr> ptie_Epoch = 1,
                   Intervals = [\<lparr> InitialProcessedTick = 10, LastProcessedTick = 12 \<rparr>] \<rparr>] \<rparr>"

text \<open>
  A store whose index holds one transaction \<open>a\<close> of identity I and asset A, at tick 5, with
  its status, body and tick data; the last processed tick is 10.
\<close>

definition item_a :: IdetityAssetTransactions where
  "item_a = \<lparr> iat_Transaction = ptx_self, iat_MoneyFlew = True, iat_Timestamp = 99 \<rparr>"

definition store_page :: PebbleStore where
  "store_page = empty_store
     \<lparr> st_TickData := [5 \<mapsto> \<lparr> ptd_Epoch = 1, ptd_TickNumber = 5, ptd_Timestamp = 99,
                               ptd_TransactionIds = [''a''] \<rparr>],
       st_TickTx := [''a'' \<mapsto> ptx_self],
       st_TxStatus := [''a'' \<mapsto> \<lparr> ts_TxId = ''a'', MoneyFlew = True \<rparr>],
       st_LastProcessedTick := Some \<lparr> pt_TickNumber = 10, pt_Epoch = 1 \<rparr>,
       st_IdentityAssetTransactions := [((''I'', ''A'', 5), [''a''])] \<rparr>"

text \<open>
  A node that answers every request for quorum votes with one vote of epoch 1 whose
  transaction digest is all zeros and that publishes the computor list \<open>comps_1\<close>; checks that
  accept everything, and checks whose quorum validation fails.
\<close>

definition comps_1 :: Computors where
  "comps_1 = \<lparr> comp_Epoch = 1, comp_PubKeys = [[1], [2], [3]], comp_Signature = [9] \<rparr>"

definition vote_empty :: QuorumTickVote where
  "vote_empty = \<lparr> qv_Epoch = 1, qv_Tick = 7, qv_ComputorIndex = 0,
                  qv_TxDigest = replicate 32 0,
                  qv_OtherDigests = replicate 10 (replicate 32 0), qv_Signature = [] \<rparr>"

definition node_7 :: Node where
  "node_7 = \<lparr> GetQuorumVotes = (\<lambda>t. Inr [vote_empty]),
              node_GetComputors = Inr comps_1,
              node_GetTickData = (\<lambda>t. Inl (New ''no tick data'')),
              GetTickTransactions = (\<lambda>t. Inl (New ''no transactions'')) \<rparr>"

definition checks_accept :: Checks where
  "checks_accept = \<lparr> computors_Validate = (\<lambda>c. None),
                     quorum_Validate = (\<lambda>q c. None),
                     tick_Validate = (\<lambda>t q c. None),
                     tx_Validate = (\<lambda>txs t. Inr txs),
                     quorum_Store = (\<lambda>s q. Inr s),
                     tick_Store = (\<lambda>s t. Inr s),
                     tx_Store = (\<lambda>s txs. Inr s) \<rparr>"

definition checks_no_quorum :: Checks where
  "checks_no_quorum = checks_accept \<lparr> quorum_Validate := (\<lambda>q c. Some (New ''not enough quorum votes'')) \<rparr>"

text \<open>
  A full quorum for tick 7: the computors 0 to 450 vote for the all-zero transaction
  digest; the same votes behind a first vote of computor 451 for another digest; and 451
  votes for a non-zero digest. The nodes \<open>node_zero\<close> and \<open>node_outlier\<close> have no tick body
  to give, \<open>node_full\<close> gives the body \<open>td_one\<close> and no transactions.
\<close>

definition vote_of :: "nat \<Rightarrow> QuorumTickVote" where
  "vote_of i = vote_empty \<lparr> qv_ComputorIndex := of_nat i \<rparr>"




definition votes_full :: "QuorumTickVote list" where
  "votes_full = map (\<lambda>i. (vote_of i) \<lparr> qv_TxDigest := replicate 32 1 \<rparr>) [0..<451]"



definition node_full :: Node where
  "node_full = \<lparr> GetQuorumVotes = (\<lambda>t. Inr votes_full),
                 node_GetComputors = Inr comps_1,
                 node_GetTickData = (\<lambda>t. Inr td_one),
                 GetTickTransactions = (\<lambda>t. Inr []) \<rparr>"

text \<open>
  Checks whose quorum validation is the specification's, with every signature accepted,
  and whose writers store the quorum votes under their tick and the tick body, with the
  identifiers of its non-zero digests, under its tick.
\<close>

definition checks_quorum :: Checks where
  "checks_quorum =
     \<lparr> computors_Validate = (\<lambda>c. None),
       quorum_Validate = quorum_Validate_spec (\<lambda>w c. True),
       tick_Validate = (\<lambda>t q c. None),
       tx_Validate = (\<lambda>txs t. Inr txs),
       quorum_Store = (\<lambda>s q. Inr (s\<lparr> st_QuorumData := (st_QuorumData s)(qv_Tick (hd q) \<mapsto> q) \<rparr>)),
       tick_Store = (\<lambda>s t. SetTickData s (td_Tick t)
                       \<lparr> ptd_Epoch = ucast (td_Epoch t), ptd_TickNumber = td_Tick t,
                         ptd_Timestamp = td_Timestamp t,
                         ptd_TransactionIds =
                           map EncodeToString
                             (filter (\<lambda>d. d \<noteq> replicate 32 0) (TransactionDigests t)) \<rparr>),
       tx_Store = (\<lambda>s txs. Inr s) \<rparr>"

section \<open>The payload codec\<close>

lemma Uint64_PutUint64: "Uint64 (PutUint64 v) = v"
proof (rule bit_word_eqI)
  fix n
  assume n: "n < LENGTH(64)"
  define q k where "q = n div 8" and "k = n mod 8"
  then have nk: "n = 8 * q + k" and k: "k < 8"
    by auto
  from n nk have "q < 8"
    by auto
  then consider "q = 0" | "q = 1" | "q = 2" | "q = 3" | "q = 4" | "q = 5" | "q = 6" | "q = 7"
    by linarith
  then show "bit (Uint64 (PutUint64 v)) n = bit v n"
    by cases (use k in \<open>simp_all add: nk Uint64_def PutUint64_def bit_or_iff bit_push_bit_iff
        bit_ucast_iff bit_drop_bit_eq\<close>)
qed

lemma length_PutUint64: "length (PutUint64 v) = 8"
  by (simp add: PutUint64_def)

lemma ReadFull_append: "length a = n \<Longrightarrow> ReadFull n (a @ b) = Inr (a, b)"
  by (simp add: ReadFull_def)

lemma UnmarshalBinary_encoded:
  assumes "length i = 32" and "length o' = 32"
  shows "UnmarshalBinary t (i @ o' @ PutUint64 a @ PutUint64 u) =
           Inr (t\<lparr> Issuer := i, NewOwnerAndPossessor := o', AssetName := a, NumberOfUnits := u \<rparr>)"
  using assms
  by (simp add: UnmarshalBinary_def ReadFull_append length_PutUint64 Uint64_PutUint64
      ReadFull_append [where b = "[]", simplified])

text \<open>
  C8. Unmarshalling the bytes that \<open>MarshalBinary\<close> produces for a value \<open>x\<close> of the input
  struct gives \<open>x\<close> back, whatever the receiver held before.
\<close>

theorem unmarshal_marshal_roundtrip:
  assumes "wf_input x"
  shows "\<exists>data. MarshalBinary x = Inr data \<and> UnmarshalBinary t data = Inr x"
  using assms by (simp add: MarshalBinary_def wf_input_def UnmarshalBinary_encoded)

theorem unmarshal_marshal_roundtrip_witness:
  "wf_input input_0x4100 \<and>
   (\<exists>data. MarshalBinary input_0x4100 = Inr data \<and>
            UnmarshalBinary zero_input data = Inr input_0x4100)"
proof -
  have h: "wf_input input_0x4100"
    by (simp add: wf_input_def input_0x4100_def)
  from unmarshal_marshal_roundtrip [OF h, of zero_input] h show ?thesis by simp
qed

section \<open>The asset name\<close>

lemma takeWhile_replicate:
  "takeWhile (\<lambda>b. b = c) s = replicate (length (takeWhile (\<lambda>b. b = c) s)) c"
  by (induction s) auto

lemma last_dropWhile_ne: "dropWhile P xs \<noteq> [] \<Longrightarrow> last (dropWhile P xs) = last xs"
  by (induction xs) auto

lemma Trim_decomp: "\<exists>n m. s = replicate n c @ Trim s c @ replicate m c"
proof -
  let ?P = "\<lambda>b. b = c"
  have 1: "s = trimRightByte s c @ rev (takeWhile ?P (rev s))"
    unfolding trimRightByte_def
    by (metis rev_append rev_rev_ident takeWhile_dropWhile_id)
  have 2: "trimRightByte s c = takeWhile ?P (trimRightByte s c) @ Trim s c"
    by (simp add: Trim_def trimLeftByte_def)
  have 3: "rev (takeWhile ?P (rev s)) = replicate (length (takeWhile ?P (rev s))) c"
    by (metis rev_replicate takeWhile_replicate)
  show ?thesis
    using 1 2 3 takeWhile_replicate [of c "trimRightByte s c"]
    by (metis append.assoc)
qed

lemma Trim_ends:
  assumes ne: "Trim s c \<noteq> []"
  shows "hd (Trim s c) \<noteq> c \<and> last (Trim s c) \<noteq> c"
proof -
  let ?P = "\<lambda>b. b = c"
  have h: "hd (Trim s c) \<noteq> c"
    using ne hd_dropWhile [of ?P "trimRightByte s c"] by (simp add: Trim_def trimLeftByte_def)
  have r: "trimRightByte s c \<noteq> []"
    using ne by (auto simp: Trim_def trimLeftByte_def)
  have "last (Trim s c) = last (trimRightByte s c)"
    using ne by (simp add: Trim_def trimLeftByte_def last_dropWhile_ne)
  moreover have "last (trimRightByte s c) \<noteq> c"
    using r hd_dropWhile [of ?P "rev s"] by (simp add: trimRightByte_def last_rev)
  ultimately show ?thesis using h by simp
qed

lemma PutUint64_0x4100: "PutUint64 0x4100 = [0, 0x41, 0, 0, 0, 0, 0, 0]"
  by (simp add: PutUint64_def)

lemma Uint64ToString_0x4100: "Uint64ToString 0x4100 = ''A''"
proof -
  have 1: "Trim [0, 0x41, 0, 0, 0, 0, 0, 0] 0 = [0x41]"
    by (simp add: Trim_def trimLeftByte_def trimRightByte_def)
  have 2: "string_of_bytes [0x41] = ''A''"
    by code_simp
  show ?thesis by (simp add: Uint64ToString_def PutUint64_0x4100 1 2)
qed

text \<open>
  C7, as stated, fails: for the value \<open>0x4100\<close> the little-endian bytes are
  \<open>00 41 00 00 00 00 00 00\<close>; stripping only the trailing zeros leaves \<open>00 41\<close>, but
  \<open>Uint64ToString\<close> returns the one-letter string A, because \<open>bytes.Trim\<close> also removes
  the leading zero byte.
\<close>

theorem asset_name_leading_zero_counterexample:
  "Uint64ToString 0x4100 = ''A'' \<and>
   string_of_bytes (trailing_zeros_stripped (PutUint64 0x4100)) = [CHR 0x00, CHR ''A'']"
proof -
  have 1: "trailing_zeros_stripped [0, 0x41, 0, 0, 0, 0, 0, 0] = [0, 0x41]"
    by (simp add: trailing_zeros_stripped_def)
  have 2: "string_of_bytes [0, 0x41] = [CHR 0x00, CHR ''A'']"
    by code_simp
  show ?thesis by (simp add: Uint64ToString_0x4100 PutUint64_0x4100 1 2)
qed

text \<open>
  C7, amended. The asset name that the classifier produces is the little-endian byte
  encoding of the value with the zero bytes removed at both ends: the encoding is a run of
  zero bytes, the name's bytes, and a run of zero bytes, and the name neither starts nor
  ends with a zero byte. Interior bytes are preserved.
\<close>

theorem asset_name_trimmed_at_both_ends:
  assumes "GetAssetTransfer f inp = Inr p"
  shows "\<exists>n m bs. PutUint64 (AssetName inp) = replicate n 0 @ bs @ replicate m 0 \<and>
           (bs \<noteq> [] \<longrightarrow> hd bs \<noteq> 0 \<and> last bs \<noteq> 0) \<and>
           pl_AssetName p = string_of_bytes bs"
proof -
  let ?bs = "Trim (PutUint64 (AssetName inp)) 0"
  from assms have "pl_AssetName p = string_of_bytes ?bs"
    by (auto simp: GetAssetTransfer_def Uint64ToString_def split: sum.splits)
  moreover obtain n m where "PutUint64 (AssetName inp) = replicate n 0 @ ?bs @ replicate m 0"
    using Trim_decomp by blast
  moreover have "?bs \<noteq> [] \<longrightarrow> hd ?bs \<noteq> 0 \<and> last ?bs \<noteq> 0"
    using Trim_ends by blast
  ultimately show ?thesis by blast
qed

theorem asset_name_trimmed_at_both_ends_witness:
  "GetAssetTransfer toy_identity input_0x4100 =
     Inr \<lparr> pl_Issuer = replicate 32 CHR ''A'', pl_DestId = replicate 32 CHR ''B'',
           pl_AssetName = ''A'', pl_Amount = - 5 \<rparr> \<and>
   (\<exists>n m bs. PutUint64 0x4100 = replicate n 0 @ bs @ replicate m 0 \<and>
           (bs \<noteq> [] \<longrightarrow> hd bs \<noteq> 0 \<and> last bs \<noteq> 0) \<and> ''A'' = string_of_bytes bs)"
proof -
  have h: "GetAssetTransfer toy_identity input_0x4100 =
     Inr \<lparr> pl_Issuer = replicate 32 CHR ''A'', pl_DestId = replicate 32 CHR ''B'',
           pl_AssetName = ''A'', pl_Amount = - 5 \<rparr>"
    by (simp add: GetAssetTransfer_def toy_identity_def input_0x4100_def Uint64ToString_0x4100)
  from asset_name_trimmed_at_both_ends [OF h] h show ?thesis
    by (simp add: input_0x4100_def)
qed

section \<open>The per-asset grouping and the stored amount\<close>

lemma slice_at_upd: "slice_at (m(k \<mapsto> v)) i = (if i = k then v else slice_at m i)"
  by (simp add: slice_at_def)

lemma slice_at_init: "slice_at (if m k = None then m(k \<mapsto> []) else m) i = slice_at m i"
  by (auto simp: slice_at_def split: option.splits)

lemma slice_at_empty: "slice_at Map.empty i = []"
  by (simp add: slice_at_def)

lemma createQxAssetTransferAssetIdMap_loop_slice:
  "slice_at (createQxAssetTransferAssetIdMap_loop m ts) k =
     slice_at m k @ map (\<lambda>t. \<lparr> db_SourceId = at_SourceId t, db_DestId = at_DestId t,
                    db_Amount = uint64_of_int64 (at_Amount t), db_TxId = at_TxId t \<rparr>)
        (filter (\<lambda>t. at_AssetIssuer t @ at_AssetName t = k) ts)"
  by (induction ts arbitrary: m) (simp_all add: Let_def slice_at_upd slice_at_init)

lemma uint_uint64_of_int64: "uint (uint64_of_int64 x) = sint x mod 2 ^ 64"
  by (simp add: uint64_of_int64_def uint_sint take_bit_eq_mod)

lemma uint64_of_int64_neg:
  assumes n: "sint (x::int64) < 0"
  shows "uint (uint64_of_int64 x) = sint x + 2 ^ 64"
proof -
  have "- (2 ^ 63) \<le> sint x" using sint_ge [of x] by simp
  then have "0 \<le> sint x + 2 ^ 64" "sint x + 2 ^ 64 < 2 ^ 64" using n by auto
  then have "(sint x + 2 ^ 64) mod 2 ^ 64 = sint x + 2 ^ 64" by (rule mod_pos_pos_trivial)
  moreover have "sint x mod 2 ^ 64 = (sint x + 2 ^ 64) mod 2 ^ 64" by simp
  ultimately show ?thesis by (simp only: uint_uint64_of_int64)
qed

text \<open>
  C10. Grouping per asset id never fails, and every transfer of the input appears in the
  record of its asset id with its amount converted to \<open>uint64\<close>: the stored amount is the
  signed amount modulo \<open>2^64\<close>, so a negative amount \<open>n\<close> is stored as \<open>n + 2^64\<close>.
  The signed amount is the payload's \<open>NumberOfUnits\<close>, carried unchanged through
  \<open>GetAssetTransfer\<close> and the per-identity grouping.
\<close>

theorem asset_transfer_amount_twos_complement:
  "(GetAssetTransfer f inp = Inr p \<longrightarrow> pl_Amount p = NumberOfUnits inp) \<and>
   (assetTransferOf lib tickNumber q = Inr a \<longrightarrow> at_Amount a = pl_Amount (qt_TransferPayload q)) \<and>
   (\<exists>m. createQxAssetTransferAssetIdMap transfers = Inr m \<and>
     (\<forall>t \<in> set transfers.
        \<exists>d \<in> set (slice_at m (at_AssetIssuer t @ at_AssetName t)).
          db_TxId d = at_TxId t \<and> db_SourceId d = at_SourceId t \<and> db_DestId d = at_DestId t \<and>
          uint (db_Amount d) = sint (at_Amount t) mod 2 ^ 64 \<and>
          (sint (at_Amount t) < 0 \<longrightarrow> uint (db_Amount d) = sint (at_Amount t) + 2 ^ 64)))"
proof (intro conjI)
  show "GetAssetTransfer f inp = Inr p \<longrightarrow> pl_Amount p = NumberOfUnits inp"
    by (auto simp: GetAssetTransfer_def split: sum.splits)
  show "assetTransferOf lib tickNumber q = Inr a \<longrightarrow> at_Amount a = pl_Amount (qt_TransferPayload q)"
    by (auto simp: assetTransferOf_def split: sum.splits)
  let ?m = "createQxAssetTransferAssetIdMap_loop Map.empty transfers"
  let ?db = "\<lambda>t. \<lparr> db_SourceId = at_SourceId t, db_DestId = at_DestId t,
                    db_Amount = uint64_of_int64 (at_Amount t), db_TxId = at_TxId t \<rparr>"
  have "\<exists>d \<in> set (slice_at ?m (at_AssetIssuer t @ at_AssetName t)).
          db_TxId d = at_TxId t \<and> db_SourceId d = at_SourceId t \<and> db_DestId d = at_DestId t \<and>
          uint (db_Amount d) = sint (at_Amount t) mod 2 ^ 64 \<and>
          (sint (at_Amount t) < 0 \<longrightarrow> uint (db_Amount d) = sint (at_Amount t) + 2 ^ 64)"
    if t: "t \<in> set transfers" for t
  proof (rule bexI [where x = "?db t"])
    show "?db t \<in> set (slice_at ?m (at_AssetIssuer t @ at_AssetName t))"
      using t by (simp add: createQxAssetTransferAssetIdMap_loop_slice slice_at_empty)
    show "db_TxId (?db t) = at_TxId t \<and> db_SourceId (?db t) = at_SourceId t \<and>
          db_DestId (?db t) = at_DestId t \<and>
          uint (db_Amount (?db t)) = sint (at_Amount t) mod 2 ^ 64 \<and>
          (sint (at_Amount t) < 0 \<longrightarrow> uint (db_Amount (?db t)) = sint (at_Amount t) + 2 ^ 64)"
      using uint64_of_int64_neg [of "at_Amount t"] uint_uint64_of_int64 [of "at_Amount t"]
      by simp
  qed
  then show "\<exists>m. createQxAssetTransferAssetIdMap transfers = Inr m \<and>
     (\<forall>t \<in> set transfers.
        \<exists>d \<in> set (slice_at m (at_AssetIssuer t @ at_AssetName t)).
          db_TxId d = at_TxId t \<and> db_SourceId d = at_SourceId t \<and> db_DestId d = at_DestId t \<and>
          uint (db_Amount d) = sint (at_Amount t) mod 2 ^ 64 \<and>
          (sint (at_Amount t) < 0 \<longrightarrow> uint (db_Amount d) = sint (at_Amount t) + 2 ^ 64))"
    by (simp add: createQxAssetTransferAssetIdMap_def)
qed

theorem asset_transfer_amount_twos_complement_witness:
  "sint (at_Amount at_self) = - 1 \<and>
   (\<exists>m. createQxAssetTransferAssetIdMap [at_self] = Inr m \<and>
      (\<exists>d \<in> set (slice_at m ''ACFB''). uint (db_Amount d) = 2 ^ 64 - 1))"
proof -
  have s: "sint (at_Amount at_self) = - 1" by (simp add: at_self_def)
  from asset_transfer_amount_twos_complement [of _ _ _ _ _ _ _ "[at_self]"]
  obtain m where m: "createQxAssetTransferAssetIdMap [at_self] = Inr m"
    and a: "\<forall>t \<in> set [at_self].
        \<exists>d \<in> set (slice_at m (at_AssetIssuer t @ at_AssetName t)).
          db_TxId d = at_TxId t \<and> db_SourceId d = at_SourceId t \<and> db_DestId d = at_DestId t \<and>
          uint (db_Amount d) = sint (at_Amount t) mod 2 ^ 64 \<and>
          (sint (at_Amount t) < 0 \<longrightarrow> uint (db_Amount d) = sint (at_Amount t) + 2 ^ 64)"
    by blast
  from a s obtain d where "d \<in> set (slice_at m (at_AssetIssuer at_self @ at_AssetName at_self))"
    "uint (db_Amount d) = - 1 + 2 ^ 64" by auto
  then have "\<exists>d \<in> set (slice_at m ''ACFB''). uint (db_Amount d) = 2 ^ 64 - 1"
    by (auto simp: at_self_def)
  with m s show ?thesis by blast
qed

section \<open>The per-identity grouping\<close>

lemma createTransferTransactionsIdentityMap_loop_slice:
  "slice_at (createTransferTransactionsIdentityMap_loop m txs) i =
     slice_at m i @ concat (map (\<lambda>tx. (if pb_DestId tx = i then [tx] else []) @
                                      (if pb_SourceId tx = i then [tx] else [])) txs)"
  by (induction txs arbitrary: m) (auto simp: Let_def slice_at_def)

lemma count_list_twice:
  assumes "D p = i" "S p = i"
  shows "count_list (concat (map (\<lambda>x. (if D x = i then [x] else []) @ (if S x = i then [x] else [])) xs)) p
           = 2 * count_list xs p"
  using assms by (induction xs) auto

lemma count_list_pos: "x \<in> set xs \<Longrightarrow> 0 < count_list xs x"
  by (induction xs) auto

lemma removeNonTransfer_loop_mem:
  "removeNonTransferTransactionsAndConvert_loop lib acc txs = Inr ptxs \<Longrightarrow>
     set acc \<subseteq> set ptxs \<and>
     (\<forall>tx\<in>set txs. Amount tx \<noteq> 0 \<longrightarrow> (\<exists>p. txToProto lib tx = Inr p \<and> p \<in> set ptxs))"
proof (induction txs arbitrary: acc)
  case Nil
  then show ?case by simp
next
  case (Cons tx rest)
  show ?case
  proof (cases "Amount tx = 0")
    case True
    with Cons show ?thesis by simp
  next
    case False
    with Cons.prems obtain p where p: "txToProto lib tx = Inr p"
      and r: "removeNonTransferTransactionsAndConvert_loop lib (acc @ [p]) rest = Inr ptxs"
      by (auto split: sum.splits)
    from Cons.IH [OF r] p False show ?thesis by auto
  qed
qed

lemma createQxAssetTransfersIdentityMap_loop_slice:
  "createQxAssetTransfersIdentityMap_loop lib tick m qts = Inr m' \<Longrightarrow>
     (\<forall>q\<in>set qts. \<exists>a. assetTransferOf lib tick q = Inr a) \<and>
     slice_at m' i = slice_at m i @
       concat (map (\<lambda>a. (if at_DestId a = i then [a] else []) @ (if at_SourceId a = i then [a] else []))
                (map (\<lambda>q. projr (assetTransferOf lib tick q)) qts))"
proof (induction qts arbitrary: m)
  case Nil
  then show ?case by simp
next
  case (Cons q rest)
  from Cons.prems obtain a where a: "assetTransferOf lib tick q = Inr a"
    by (auto split: sum.splits)
  let ?m1 = "(if m (at_DestId a) = None then m(at_DestId a \<mapsto> []) else m)"
  let ?m2 = "(if ?m1 (at_SourceId a) = None then ?m1(at_SourceId a \<mapsto> []) else ?m1)"
  let ?m3 = "?m2(at_DestId a \<mapsto> slice_at ?m2 (at_DestId a) @ [a])"
  let ?m4 = "?m3(at_SourceId a \<mapsto> slice_at ?m3 (at_SourceId a) @ [a])"
  from Cons.prems a have r: "createQxAssetTransfersIdentityMap_loop lib tick ?m4 rest = Inr m'"
    by (simp add: Let_def)
  have s: "slice_at ?m4 i = slice_at m i @ (if at_DestId a = i then [a] else []) @ (if at_SourceId a = i then [a] else [])"
    by (simp only: slice_at_upd slice_at_init) auto
  note ih = Cons.IH [OF r, unfolded s]
  from ih a show ?case by simp
qed

text \<open>
  C9. A transaction with a positive amount whose source and destination identities are
  equal is appended twice to the transfer record of that identity: the record holds it twice
  for every time it occurs among the tick's transfers. The same holds in the grouping of
  asset transfers when the payload's new owner is the source.
\<close>

theorem self_transfer_recorded_twice:
  "(removeNonTransferTransactionsAndConvert lib transactions = Inr ptxs \<and>
    createTransferTransactionsIdentityMap ptxs = Inr m \<and>
    tx \<in> set transactions \<and> 0 < sint (Amount tx) \<and> txToProto lib tx = Inr p \<and>
    pb_SourceId p = pb_DestId p
    \<longrightarrow> 0 < count_list ptxs p \<and>
        count_list (slice_at m (pb_SourceId p)) p = 2 * count_list ptxs p) \<and>
   (createQxAssetTransfersIdentityMap lib qts tickNumber = Inr qm \<and>
    q \<in> set qts \<and> assetTransferOf lib tickNumber q = Inr a \<and> at_DestId a = at_SourceId a
    \<longrightarrow> 0 < count_list (map (\<lambda>q. projr (assetTransferOf lib tickNumber q)) qts) a \<and>
        count_list (slice_at qm (at_SourceId a)) a =
          2 * count_list (map (\<lambda>q. projr (assetTransferOf lib tickNumber q)) qts) a)"
proof (intro conjI impI)
  assume h: "removeNonTransferTransactionsAndConvert lib transactions = Inr ptxs \<and>
    createTransferTransactionsIdentityMap ptxs = Inr m \<and>
    tx \<in> set transactions \<and> 0 < sint (Amount tx) \<and> txToProto lib tx = Inr p \<and>
    pb_SourceId p = pb_DestId p"
  then have nz: "Amount tx \<noteq> 0" by auto
  from h have "removeNonTransferTransactionsAndConvert_loop lib [] transactions = Inr ptxs"
    by (simp add: removeNonTransferTransactionsAndConvert_def)
  from removeNonTransfer_loop_mem [OF this] h nz have "p \<in> set ptxs" by auto
  then show "0 < count_list ptxs p" by (rule count_list_pos)
  from h have m: "m = createTransferTransactionsIdentityMap_loop Map.empty ptxs"
    by (simp add: createTransferTransactionsIdentityMap_def)
  from h have e: "pb_DestId p = pb_SourceId p" by simp
  show "count_list (slice_at m (pb_SourceId p)) p = 2 * count_list ptxs p"
    unfolding m createTransferTransactionsIdentityMap_loop_slice
    using count_list_twice [of pb_DestId p "pb_SourceId p" pb_SourceId ptxs] e
    by (simp add: slice_at_def)
next
  assume h: "createQxAssetTransfersIdentityMap lib qts tickNumber = Inr qm \<and>
    q \<in> set qts \<and> assetTransferOf lib tickNumber q = Inr a \<and> at_DestId a = at_SourceId a"
  let ?ats = "map (\<lambda>q. projr (assetTransferOf lib tickNumber q)) qts"
  from h have "a \<in> set ?ats" by force
  then show "0 < count_list ?ats a" by (rule count_list_pos)
  from h have "createQxAssetTransfersIdentityMap_loop lib tickNumber Map.empty qts = Inr qm"
    by (simp add: createQxAssetTransfersIdentityMap_def)
  from createQxAssetTransfersIdentityMap_loop_slice [OF this, of "at_SourceId a"]
  show "count_list (slice_at qm (at_SourceId a)) a = 2 * count_list ?ats a"
    using count_list_twice [of at_DestId a "at_SourceId a" at_SourceId ?ats] h
    by (simp add: slice_at_def)
qed


lemma txToProto_tx_self: "txToProto lib0 tx_self = Inr ptx_self"
  by (simp add: txToProto_def lib0_def tx_self_def ptx_self_def toy_identity_def)

lemma assetTransferOf_qtx_self: "assetTransferOf lib0 7 qtx_self = Inr at_self"
  by (simp add: assetTransferOf_def lib0_def tx_self_def qtx_self_def at_self_def toy_identity_def)

theorem self_transfer_recorded_twice_witness:
  "removeNonTransferTransactionsAndConvert lib0 [tx_self] = Inr [ptx_self] \<and>
   createTransferTransactionsIdentityMap [ptx_self] =
     Inr (createTransferTransactionsIdentityMap_loop Map.empty [ptx_self]) \<and>
   tx_self \<in> set [tx_self] \<and> 0 < sint (Amount tx_self) \<and>
   txToProto lib0 tx_self = Inr ptx_self \<and> pb_SourceId ptx_self = pb_DestId ptx_self \<and>
   count_list (slice_at (createTransferTransactionsIdentityMap_loop Map.empty [ptx_self]) ''B'')
     ptx_self = 2 \<and>
   (\<exists>qm. createQxAssetTransfersIdentityMap lib0 [qtx_self] 7 = Inr qm \<and>
      qtx_self \<in> set [qtx_self] \<and> assetTransferOf lib0 7 qtx_self = Inr at_self \<and>
      at_DestId at_self = at_SourceId at_self \<and>
      count_list (slice_at qm ''B'') at_self = 2)"
proof -
  let ?m = "createTransferTransactionsIdentityMap_loop Map.empty [ptx_self]"
  have h1: "removeNonTransferTransactionsAndConvert lib0 [tx_self] = Inr [ptx_self]"
    by (simp add: removeNonTransferTransactionsAndConvert_def txToProto_tx_self)
       (simp add: tx_self_def)
  have h2: "createTransferTransactionsIdentityMap [ptx_self] = Inr ?m"
    by (simp add: createTransferTransactionsIdentityMap_def)
  have h3: "0 < sint (Amount tx_self)" by (simp add: tx_self_def)
  have h4: "pb_SourceId ptx_self = pb_DestId ptx_self" "pb_SourceId ptx_self = ''B''"
    by (simp_all add: ptx_self_def)
  obtain qm where h5: "createQxAssetTransfersIdentityMap lib0 [qtx_self] 7 = Inr qm"
    by (simp add: createQxAssetTransfersIdentityMap_def assetTransferOf_qtx_self Let_def)
  have h6: "at_DestId at_self = at_SourceId at_self" "at_SourceId at_self = ''B''"
    by (simp_all add: at_self_def)
  from self_transfer_recorded_twice [of lib0 "[tx_self]" "[ptx_self]" ?m tx_self ptx_self
      "[qtx_self]" 7 qm qtx_self at_self]
    h1 h2 h3 h4 h5 h6 txToProto_tx_self assetTransferOf_qtx_self
  show ?thesis by simp
qed

section \<open>Transaction validation: the count check\<close>

lemma distinct_hextable: "distinct hextable" and length_hextable: "length hextable = 16"
  by (simp_all add: hextable_def)

lemma hex_digit_inj:
  "a < 16 \<Longrightarrow> b < 16 \<Longrightarrow> hextable ! a = hextable ! b \<Longrightarrow> a = b"
  using distinct_hextable length_hextable by (simp add: nth_eq_iff_index_eq)

lemma hi_nibble: "unat (drop_bit 4 (v::byte)) < 16"
proof -
  have "unat v < 2 ^ LENGTH(8)" by (rule unsigned_less)
  then have "unat v < 256" by simp
  moreover have "unat (drop_bit 4 v) = unat v div 2 ^ 4"
    by (simp add: drop_bit_eq_div unat_div)
  ultimately show ?thesis by simp
qed

lemma lo_nibble: "unat ((v::byte) AND 0x0f) < 16"
proof -
  have "v AND 0x0f \<le> 0x0f"
    by (rule word_and_le1)
  then have "unat (v AND 0x0f) \<le> unat (0x0f :: byte)"
    by (simp only: word_le_nat_alt)
  then show ?thesis by simp
qed

lemma byte_of_nibbles:
  assumes "drop_bit 4 (v::byte) = drop_bit 4 w" and "v AND 0x0f = w AND 0x0f"
  shows "v = w"
proof -
  have m: "(15 :: byte) = mask 4" by (simp add: mask_eq_exp_minus_1)
  have "v = push_bit 4 (drop_bit 4 v) + take_bit 4 v" by (simp add: bits_ident)
  also have "\<dots> = push_bit 4 (drop_bit 4 w) + take_bit 4 w"
    using assms by (simp add: take_bit_eq_mask m)
  also have "\<dots> = w" by (simp add: bits_ident)
  finally show ?thesis .
qed

lemma EncodeToString_inj: "EncodeToString xs = EncodeToString ys \<Longrightarrow> xs = ys"
proof (induction xs arbitrary: ys)
  case Nil
  then show ?case by (cases ys) simp_all
next
  case (Cons v xs)
  from Cons.prems obtain w ys' where ys: "ys = w # ys'" by (cases ys) simp_all
  from Cons.prems [unfolded ys] have h: "hextable ! unat (drop_bit 4 v) = hextable ! unat (drop_bit 4 w)"
    and l: "hextable ! unat (v AND 0x0f) = hextable ! unat (w AND 0x0f)"
    and r: "EncodeToString xs = EncodeToString ys'" by simp_all
  from h have "unat (drop_bit 4 v) = unat (drop_bit 4 w)"
    by (rule hex_digit_inj [OF hi_nibble hi_nibble])
  moreover from l have "unat (v AND 0x0f) = unat (w AND 0x0f)"
    by (rule hex_digit_inj [OF lo_nibble lo_nibble])
  ultimately have "drop_bit 4 v = drop_bit 4 w" and "v AND 0x0f = w AND 0x0f"
    by (simp_all only: word_unat_eq_iff)
  then have "v = w" by (rule byte_of_nibbles)
  with Cons.IH [OF r] ys show ?case by simp
qed
lemma createTxDigestsMap_loop_set:
  "createTxDigestsMap_loop S ds = S \<union> EncodeToString ` set (filter (\<lambda>d. d \<noteq> emptyTxDigest) ds)"
  by (induction ds arbitrary: S) auto

lemma card_createTxDigestsMap:
  "card (createTxDigestsMap td) =
     card (set (filter (\<lambda>d. d \<noteq> emptyTxDigest) (TransactionDigests td)))"
proof -
  have "inj_on EncodeToString A" for A
    by (rule inj_onI) (rule EncodeToString_inj)
  then show ?thesis
    by (simp add: createTxDigestsMap_def createTxDigestsMap_loop_set card_image del: set_filter)
qed

text \<open>
  C5, amended. \<open>Validate\<close> returns the count-mismatch error exactly when the tick body
  lists at least one non-zero digest and the number of transactions supplied differs from
  the number of distinct non-zero digests. When the tick body lists no non-zero digest it
  returns the empty list and no error, whatever was supplied. An error result carries no
  transactions.
\<close>

theorem count_mismatch_needs_a_digest:
  "((\<exists>n m. Validate lib sv txs td = Inl (TxCountMismatch n m)) \<longleftrightarrow>
      filter (\<lambda>d. d \<noteq> emptyTxDigest) (TransactionDigests td) \<noteq> [] \<and>
      length txs \<noteq> card (set (filter (\<lambda>d. d \<noteq> emptyTxDigest) (TransactionDigests td)))) \<and>
   (filter (\<lambda>d. d \<noteq> emptyTxDigest) (TransactionDigests td) = [] \<longrightarrow>
      Validate lib sv txs td = Inr [])"
proof -
  let ?nz = "filter (\<lambda>d. d \<noteq> emptyTxDigest) (TransactionDigests td)"
  have c: "card (createTxDigestsMap td) = card (set ?nz)"
    by (rule card_createTxDigestsMap)
  have z: "card (set ?nz) = 0 \<longleftrightarrow> ?nz = []"
    by (simp del: set_filter)
  show ?thesis
    using z by (auto simp: Validate_def Let_def c split: sum.splits simp del: set_filter)
qed

text \<open>
  C5, as stated, fails: against a tick body whose digests are all zero, one supplied
  transaction differs in number from the zero distinct non-zero digests, and \<open>Validate\<close>
  returns success with an empty list ("handles empty tick but with transactions").
\<close>

theorem count_mismatch_counterexample:
  "length [tx_self] \<noteq>
     card (set (filter (\<lambda>d. d \<noteq> emptyTxDigest) (TransactionDigests td_zero))) \<and>
   Validate lib0 sv_accept [tx_self] td_zero = Inr []"
  by (simp add: Validate_def createTxDigestsMap_def td_zero_def emptyTxDigest_def)

theorem count_mismatch_needs_a_digest_witness:
  "filter (\<lambda>d. d \<noteq> emptyTxDigest) (TransactionDigests td_one) \<noteq> [] \<and>
   length [tx_self, tx_self] \<noteq>
     card (set (filter (\<lambda>d. d \<noteq> emptyTxDigest) (TransactionDigests td_one))) \<and>
   (\<exists>n m. Validate lib0 sv_accept [tx_self, tx_self] td_one = Inl (TxCountMismatch n m))"
proof -
  have 1: "filter (\<lambda>d. d \<noteq> emptyTxDigest) (TransactionDigests td_one) = [replicate 32 1, replicate 32 1]"
    by (simp add: td_one_def emptyTxDigest_def)
  from count_mismatch_needs_a_digest [of lib0 sv_accept "[tx_self, tx_self]" td_one]
  show ?thesis by (simp add: 1)
qed

section \<open>Classification of asset transfers\<close>

lemma QX_neq_QUTIL: "SMART_CONTRACT_QX \<noteq> SMART_CONTRACT_QUTIL"
  by (simp add: SMART_CONTRACT_QX_def SMART_CONTRACT_QUTIL_def)

lemma UnmarshalBinary_ok_iff:
  "(\<exists>inp. UnmarshalBinary t data = Inr inp) \<longleftrightarrow> 80 \<le> length data"
  by (auto simp: UnmarshalBinary_def ReadFull_def split: sum.splits if_splits)

lemma UnmarshalBinary_fields:
  "UnmarshalBinary t data = Inr inp \<Longrightarrow>
     Issuer inp = take 32 data \<and> NewOwnerAndPossessor inp = take 32 (drop 32 data)"
  by (auto simp: UnmarshalBinary_def ReadFull_def split: sum.splits if_splits)

text \<open>
  The newer path. Once the identities of a transaction are derived, \<open>ParseAssetTransaction\<close>
  attaches an asset-transfer payload exactly when the destination is the exchange contract,
  the input type is 2 and the input decodes: it has at least 80 bytes and both embedded
  keys have an identity text. A transaction of input type 2 to any other destination is
  \<open>ErrNotValidTransaction\<close>, and the list from which \<open>createIdentityMap\<close> builds the index
  is the same with or without it.
\<close>

lemma ParseAssetTransaction_classifies:
  assumes "txToLeanTransaction lib tx = Inr l"
  shows "((\<exists>r p. ParseAssetTransaction lib tx = Inr r \<and> ta_QxTransferAssetPayload r = Some p) \<longleftrightarrow>
            lt_DestId l = SMART_CONTRACT_QX \<and> InputType tx = 2 \<and> 80 \<le> length (Input tx) \<and>
            (\<exists>i. FromPubKey lib (take 32 (Input tx)) False = Inr i) \<and>
            (\<exists>n. FromPubKey lib (take 32 (drop 32 (Input tx))) False = Inr n)) \<and>
         (InputType tx = 2 \<and> lt_DestId l \<noteq> SMART_CONTRACT_QX \<longrightarrow>
            ParseAssetTransaction lib tx = Inl ErrNotValidTransaction \<and>
            removeNonTransactionWithAssetPayloadsAndConvert lib (tx # rest) =
              removeNonTransactionWithAssetPayloadsAndConvert lib rest)"
proof (intro conjI impI)
  show "(\<exists>r p. ParseAssetTransaction lib tx = Inr r \<and> ta_QxTransferAssetPayload r = Some p) \<longleftrightarrow>
            lt_DestId l = SMART_CONTRACT_QX \<and> InputType tx = 2 \<and> 80 \<le> length (Input tx) \<and>
            (\<exists>i. FromPubKey lib (take 32 (Input tx)) False = Inr i) \<and>
            (\<exists>n. FromPubKey lib (take 32 (drop 32 (Input tx))) False = Inr n)"
    (is "?L \<longleftrightarrow> ?R")
  proof
    assume ?L
    then obtain r p where r: "ParseAssetTransaction lib tx = Inr r"
      and p: "ta_QxTransferAssetPayload r = Some p" by blast
    from r p assms have d: "lt_DestId l = SMART_CONTRACT_QX" and t: "InputType tx = 2"
      by (auto simp: ParseAssetTransaction_def split: sum.splits if_splits option.splits)
    from r p assms d t obtain inp where u: "UnmarshalBinary zero_input (Input tx) = Inr inp"
      and g: "GetAssetTransfer (FromPubKey lib) inp = Inr p"
      by (auto simp: ParseAssetTransaction_def QX_neq_QUTIL split: sum.splits if_splits)
    from u have "80 \<le> length (Input tx)" using UnmarshalBinary_ok_iff by blast
    moreover from g UnmarshalBinary_fields [OF u]
    have "(\<exists>i. FromPubKey lib (take 32 (Input tx)) False = Inr i) \<and>
          (\<exists>n. FromPubKey lib (take 32 (drop 32 (Input tx))) False = Inr n)"
      by (auto simp: GetAssetTransfer_def split: sum.splits)
    ultimately show ?R using d t by blast
  next
    assume R: ?R
    then obtain inp where u: "UnmarshalBinary zero_input (Input tx) = Inr inp"
      using UnmarshalBinary_ok_iff by blast
    from R UnmarshalBinary_fields [OF u] obtain p where
      g: "GetAssetTransfer (FromPubKey lib) inp = Inr p"
      by (auto simp: GetAssetTransfer_def split: sum.splits)
    from R u g assms show ?L
      by (simp add: ParseAssetTransaction_def QX_neq_QUTIL)
  qed
next
  assume h: "InputType tx = 2 \<and> lt_DestId l \<noteq> SMART_CONTRACT_QX"
  with assms show e: "ParseAssetTransaction lib tx = Inl ErrNotValidTransaction"
    by (simp add: ParseAssetTransaction_def)
  then show "removeNonTransactionWithAssetPayloadsAndConvert lib (tx # rest) =
              removeNonTransactionWithAssetPayloadsAndConvert lib rest"
    by (simp add: removeNonTransactionWithAssetPayloadsAndConvert_def)
qed

text \<open>
  A transaction to which \<open>ParseAssetTransaction\<close> attaches an asset-transfer payload
  contributes to the index that \<open>createIdentityMap\<close> builds: its identifier is listed under
  the source and under the new owner, for the asset of the payload.
\<close>

lemma classified_transfer_is_indexed:
  assumes l: "txToLeanTransaction lib tx = Inr l"
    and r: "ParseAssetTransaction lib tx = Inr r"
    and p: "ta_QxTransferAssetPayload r = Some p"
  shows "\<exists>m. createIdentityMap [r] = Inr m \<and>
             (\<exists>inner. m (lt_SourceId l) = Some inner \<and>
                lt_TxId l \<in> set (slice_at inner (pl_Issuer p @ pl_AssetName p))) \<and>
             (\<exists>inner. m (pl_DestId p) = Some inner \<and>
                lt_TxId l \<in> set (slice_at inner (pl_Issuer p @ pl_AssetName p)))"
proof -
  from r p l have d: "lt_DestId l = SMART_CONTRACT_QX" and t: "InputType tx = 2"
    by (auto simp: ParseAssetTransaction_def split: sum.splits if_splits option.splits)
  from r p l d t have tr: "ta_Transaction r = l"
    by (auto simp: ParseAssetTransaction_def QX_neq_QUTIL split: sum.splits if_splits)
  from l t have it: "lt_InputType l = 2"
    by (auto simp: txToLeanTransaction_def split: sum.splits)
  have fp: "findTransactionParticipants r =
      Inr (fst (add_unseen (add_unseen ([], {}) (lt_SourceId l)) (pl_DestId p)))"
    by (simp add: findTransactionParticipants_def tr it d QX_neq_QUTIL p)
  have fc: "findTransactionCurrency r =
      Inr \<lparr> cur_AssetIssuer = pl_Issuer p, cur_AssetName = pl_AssetName p \<rparr>"
    by (simp add: findTransactionCurrency_def tr it d QX_neq_QUTIL p)
  show ?thesis
    by (cases "pl_DestId p = lt_SourceId l")
       (simp_all add: createIdentityMap_def FindTransactionIdParticipantsAndCurrency_def fp fc tr
          add_unseen_def Let_def slice_at_def)
qed

text \<open>
  The concrete transactions: their fields, their decoded payload and their identities.
\<close>

lemma qx_key_neq_replicate: "replicate 32 x \<noteq> qx_key"
proof
  assume e: "replicate 32 x = qx_key"
  then have "replicate 32 x ! 0 = qx_key ! 0" "replicate 32 x ! 1 = qx_key ! 1"
    by simp_all
  then show False by (simp add: qx_key_def)
qed

lemma letters_identity_replicate:
  "letters_identity (replicate 32 0) lower = Inr (replicate 32 CHR ''A'')"
  "letters_identity (replicate 32 1) lower = Inr (replicate 32 CHR ''B'')"
  "letters_identity (replicate 32 2) lower = Inr (replicate 32 CHR ''C'')"
  "letters_identity (replicate 32 3) lower = Inr (replicate 32 CHR ''D'')"
  "letters_identity (replicate 32 4) lower = Inr (replicate 32 CHR ''E'')"
  "letters_identity qx_key lower = Inr SMART_CONTRACT_QX"
  by (simp_all add: letters_identity_def qx_key_neq_replicate)

lemma lib_qx_fields:
  "FromPubKey lib_qx = letters_identity" "Digest lib_qx t = Inr (replicate 32 4)"
  by (simp_all add: lib_qx_def lib0_def)

lemma PutUint64_CFB: "PutUint64 0x424643 = [0x43, 0x46, 0x42, 0, 0, 0, 0, 0]"
  by (simp add: PutUint64_def)

lemma Uint64ToString_CFB: "Uint64ToString 0x424643 = ''CFB''"
proof -
  have 1: "Trim [0x43, 0x46, 0x42, 0, 0, 0, 0, 0] 0 = [0x43, 0x46, 0x42]"
    by (simp add: Trim_def trimLeftByte_def trimRightByte_def)
  have 2: "string_of_bytes [0x43, 0x46, 0x42] = ''CFB''"
    by code_simp
  show ?thesis by (simp add: Uint64ToString_def PutUint64_CFB 1 2)
qed

lemma not_the_exchange_contract: "replicate 32 CHR ''D'' \<noteq> SMART_CONTRACT_QX"
proof
  assume "replicate 32 CHR ''D'' = SMART_CONTRACT_QX"
  then have "length (replicate 32 CHR ''D'') = length SMART_CONTRACT_QX" by (rule arg_cong)
  then show False by (simp add: SMART_CONTRACT_QX_def)
qed

lemma fields_tx_other_dest:
  "InputType tx_other_dest = 2" "Input tx_other_dest = Input tx_qx_transfer"
  "SourcePublicKey tx_other_dest = replicate 32 2"
  "DestinationPublicKey tx_other_dest = replicate 32 3"
  "length (SourcePublicKey tx_other_dest) = 32"
  "length (DestinationPublicKey tx_other_dest) = 32"
  "length (Signature tx_other_dest) = 64"
  "length (Input tx_other_dest) = 80"
  by (simp_all add: tx_other_dest_def tx_qx_transfer_def length_PutUint64)

lemma decode_tx_qx_transfer:
  "UnmarshalBinary zero_input (Input tx_qx_transfer) = Inr input_cfb"
  using UnmarshalBinary_encoded [of "replicate 32 0" "replicate 32 1" zero_input "0x424643" 5]
  by (simp add: tx_qx_transfer_def zero_input_def input_cfb_def)

lemma GetAssetTransfer_input_cfb:
  "GetAssetTransfer letters_identity input_cfb = Inr payload_cfb"
  by (simp add: GetAssetTransfer_def input_cfb_def letters_identity_replicate Uint64ToString_CFB
        payload_cfb_def)

lemma lean_tx_other_dest:
  "txToLeanTransaction lib_qx tx_other_dest =
     Inr \<lparr> lt_SourceId = replicate 32 CHR ''C'', lt_DestId = replicate 32 CHR ''D'',
           lt_TxId = replicate 32 CHR ''E'', lt_InputType = 2,
           lt_Input = Input tx_qx_transfer \<rparr>"
  by (simp add: txToLeanTransaction_def lib_qx_fields fields_tx_other_dest
        letters_identity_replicate)

lemma assetTransferOf_other:
  "assetTransferOf lib_qx 7 \<lparr> qt_Transaction = tx_other_dest, qt_TransferPayload = payload_cfb \<rparr> =
     Inr at_other"
  by (simp add: assetTransferOf_def lib_qx_fields fields_tx_other_dest letters_identity_replicate
        at_other_def payload_cfb_def)

text \<open>
  C2 fails on the code. The transaction \<open>tx_other_dest\<close> has input type 2, keys of 32
  bytes, a signature of 64 bytes and a decodable payload, and its destination is not the
  exchange contract. The newer path does not classify it: \<open>ParseAssetTransaction\<close> answers
  \<open>ErrNotValidTransaction\<close> and nothing reaches \<open>createIdentityMap\<close>. The older path, which
  \<open>Store\<close> and the migration run through \<open>StoreQxAssetTransfers\<close>, tests the input type
  only: \<open>removeNonQxAssetTransferTransactionsAndConvert\<close> converts the transaction,
  \<open>createQxAssetTransfersIdentityMap\<close> lists the transfer under the source and the new owner,
  and \<open>createQxAssetTransferAssetIdMap\<close> lists it under the asset: the entries that are
  written to the per-identity-per-asset index.
\<close>

theorem transfer_to_other_destination_is_indexed:
  "InputType tx_other_dest = 2 \<and>
   length (SourcePublicKey tx_other_dest) = 32 \<and>
   length (DestinationPublicKey tx_other_dest) = 32 \<and>
   length (Signature tx_other_dest) = 64 \<and>
   FromPubKey lib_qx (DestinationPublicKey tx_other_dest) False = Inr (replicate 32 CHR ''D'') \<and>
   replicate 32 CHR ''D'' \<noteq> SMART_CONTRACT_QX \<and>
   ParseAssetTransaction lib_qx tx_other_dest = Inl ErrNotValidTransaction \<and>
   removeNonTransactionWithAssetPayloadsAndConvert lib_qx [tx_other_dest] = Inr [] \<and>
   createIdentityMap [] = Inr Map.empty \<and>
   removeNonQxAssetTransferTransactionsAndConvert lib_qx [tx_other_dest] =
     Inr [\<lparr> qt_Transaction = tx_other_dest, qt_TransferPayload = payload_cfb \<rparr>] \<and>
   createQxAssetTransfersIdentityMap lib_qx
       [\<lparr> qt_Transaction = tx_other_dest, qt_TransferPayload = payload_cfb \<rparr>] 7 =
     Inr [replicate 32 CHR ''B'' \<mapsto> [at_other], replicate 32 CHR ''C'' \<mapsto> [at_other]] \<and>
   createQxAssetTransferAssetIdMap [at_other] =
     Inr [replicate 32 CHR ''A'' @ ''CFB'' \<mapsto> [db_other]]"
proof -
  have p: "ParseAssetTransaction lib_qx tx_other_dest = Inl ErrNotValidTransaction"
    by (simp add: ParseAssetTransaction_def lean_tx_other_dest fields_tx_other_dest
          not_the_exchange_contract SMART_CONTRACT_QUTIL_def)
  then have n: "removeNonTransactionWithAssetPayloadsAndConvert lib_qx [tx_other_dest] = Inr []"
    by (simp add: removeNonTransactionWithAssetPayloadsAndConvert_def)
  have o: "removeNonQxAssetTransferTransactionsAndConvert lib_qx [tx_other_dest] =
     Inr [\<lparr> qt_Transaction = tx_other_dest, qt_TransferPayload = payload_cfb \<rparr>]"
    by (simp add: removeNonQxAssetTransferTransactionsAndConvert_def fields_tx_other_dest
          decode_tx_qx_transfer lib_qx_fields GetAssetTransfer_input_cfb)
  have i: "createQxAssetTransfersIdentityMap lib_qx
       [\<lparr> qt_Transaction = tx_other_dest, qt_TransferPayload = payload_cfb \<rparr>] 7 =
     Inr [replicate 32 CHR ''B'' \<mapsto> [at_other], replicate 32 CHR ''C'' \<mapsto> [at_other]]"
    by (simp add: createQxAssetTransfersIdentityMap_def assetTransferOf_other Let_def slice_at_def)
       (auto simp: at_other_def fun_eq_iff)
  have a: "createQxAssetTransferAssetIdMap [at_other] =
     Inr [replicate 32 CHR ''A'' @ ''CFB'' \<mapsto> [db_other]]"
    by (simp add: createQxAssetTransferAssetIdMap_def Let_def slice_at_def)
       (simp add: at_other_def db_other_def uint64_of_int64_def)
  show ?thesis
    using p n o i a
    by (simp add: fields_tx_other_dest lib_qx_fields letters_identity_replicate
          not_the_exchange_contract createIdentityMap_def)
qed

text \<open>
  On both paths the payload has to decode: a transaction of input type 2 to the exchange
  contract with an empty input is \<open>ErrNotValidTransaction\<close> on the newer path and is dropped
  on the older one.
\<close>

lemma undecodable_payload_is_not_classified:
  "FromPubKey lib_qx (DestinationPublicKey tx_qx_short) False = Inr SMART_CONTRACT_QX \<and>
   InputType tx_qx_short = 2 \<and>
   ParseAssetTransaction lib_qx tx_qx_short = Inl ErrNotValidTransaction \<and>
   removeNonQxAssetTransferTransactionsAndConvert lib_qx [tx_qx_short] = Inr []"
proof -
  have u: "UnmarshalBinary zero_input [] = Inl (Wrap EOF ''reading issuer'')"
    by (simp add: UnmarshalBinary_def ReadFull_def)
  have f: "InputType tx_qx_short = 2" "Input tx_qx_short = []"
      "SourcePublicKey tx_qx_short = replicate 32 2" "DestinationPublicKey tx_qx_short = qx_key"
    by (simp_all add: tx_qx_short_def tx_qx_transfer_def)
  have l: "txToLeanTransaction lib_qx tx_qx_short =
     Inr \<lparr> lt_SourceId = replicate 32 CHR ''C'', lt_DestId = SMART_CONTRACT_QX,
           lt_TxId = replicate 32 CHR ''E'', lt_InputType = 2, lt_Input = [] \<rparr>"
    by (simp add: txToLeanTransaction_def lib_qx_fields f letters_identity_replicate)
  show ?thesis
    by (simp add: ParseAssetTransaction_def l f u QX_neq_QUTIL lib_qx_fields
          letters_identity_replicate removeNonQxAssetTransferTransactionsAndConvert_def)
qed

text \<open>
  The same payload sent to the exchange contract is classified, and \<open>createIdentityMap\<close>
  lists its identifier under the source and the new owner for the asset.
\<close>

lemma transfer_to_exchange_contract_is_indexed:
  "\<exists>r. removeNonTransactionWithAssetPayloadsAndConvert lib_qx [tx_qx_transfer] = Inr [r] \<and>
       ta_QxTransferAssetPayload r = Some payload_cfb \<and>
       createIdentityMap [r] =
         Inr [replicate 32 CHR ''C'' \<mapsto> [replicate 32 CHR ''A'' @ ''CFB'' \<mapsto> [replicate 32 CHR ''E'']],
              replicate 32 CHR ''B'' \<mapsto> [replicate 32 CHR ''A'' @ ''CFB'' \<mapsto> [replicate 32 CHR ''E'']]]"
proof -
  have f: "InputType tx_qx_transfer = 2"
      "SourcePublicKey tx_qx_transfer = replicate 32 2" "DestinationPublicKey tx_qx_transfer = qx_key"
    by (simp_all add: tx_qx_transfer_def)
  define l where "l = \<lparr> lt_SourceId = replicate 32 CHR ''C'', lt_DestId = SMART_CONTRACT_QX,
           lt_TxId = replicate 32 CHR ''E'', lt_InputType = 2, lt_Input = Input tx_qx_transfer \<rparr>"
  have l: "txToLeanTransaction lib_qx tx_qx_transfer = Inr l"
    by (simp add: txToLeanTransaction_def lib_qx_fields f letters_identity_replicate l_def)
  define r where "r = \<lparr> ta_Transaction = l, ta_QxTransferAssetPayload = Some payload_cfb,
                        ta_SendManyTransaction = None \<rparr>"
  have lf: "lt_DestId l = SMART_CONTRACT_QX" "lt_InputType l = 2"
      "lt_SourceId l = replicate 32 CHR ''C''" "lt_TxId l = replicate 32 CHR ''E''"
    by (simp_all add: l_def)
  have p: "ParseAssetTransaction lib_qx tx_qx_transfer = Inr r"
    by (simp add: ParseAssetTransaction_def l lf f QX_neq_QUTIL decode_tx_qx_transfer
          lib_qx_fields GetAssetTransfer_input_cfb r_def)
  have n: "removeNonTransactionWithAssetPayloadsAndConvert lib_qx [tx_qx_transfer] = Inr [r]"
    by (simp add: removeNonTransactionWithAssetPayloadsAndConvert_def p)
  have rf: "ta_Transaction r = l" "ta_QxTransferAssetPayload r = Some payload_cfb"
    by (simp_all add: r_def)
  have fp: "findTransactionParticipants r = Inr [replicate 32 CHR ''C'', replicate 32 CHR ''B'']"
    by (simp add: findTransactionParticipants_def rf lf QX_neq_QUTIL add_unseen_def payload_cfb_def)
  have fc: "findTransactionCurrency r =
      Inr \<lparr> cur_AssetIssuer = replicate 32 CHR ''A'', cur_AssetName = ''CFB'' \<rparr>"
    by (simp add: findTransactionCurrency_def rf lf QX_neq_QUTIL payload_cfb_def)
  have m: "createIdentityMap [r] =
         Inr [replicate 32 CHR ''C'' \<mapsto> [replicate 32 CHR ''A'' @ ''CFB'' \<mapsto> [replicate 32 CHR ''E'']],
              replicate 32 CHR ''B'' \<mapsto> [replicate 32 CHR ''A'' @ ''CFB'' \<mapsto> [replicate 32 CHR ''E'']]]"
    by (simp add: createIdentityMap_def FindTransactionIdParticipantsAndCurrency_def fp fc rf lf
          Let_def slice_at_def)
  show ?thesis using n rf m by blast
qed

section \<open>Processed-tick intervals\<close>

lemma list_update_last:
  "xs \<noteq> [] \<Longrightarrow> xs[length xs - 1 := f (xs ! (length xs - 1))] = butlast xs @ [f (last xs)]"
  by (induction xs rule: rev_induct) (simp_all add: nth_append)

lemma extend_last_interval:
  "non_overlapping_ascending xs \<Longrightarrow> xs \<noteq> [] \<Longrightarrow> InitialProcessedTick (last xs) \<le> t \<Longrightarrow>
     non_overlapping_ascending (butlast xs @ [(last xs)\<lparr> LastProcessedTick := t \<rparr>])"
proof (induction xs rule: non_overlapping_ascending.induct)
  case 1
  then show ?case by simp
next
  case (2 i)
  then show ?case by simp
next
  case (3 i j rest)
  then show ?case by (cases rest) auto
qed

lemma SetProcessedTickIntervalPerEpoch_result:
  "\<exists>s'. SetProcessedTickIntervalPerEpoch s e p = Inr s' \<and>
         getProcessedTickIntervalsPerEpoch s' e = Inr p \<and>
         st_LastProcessedTick s' = st_LastProcessedTick s \<and>
         st_LastProcessedTickPerEpoch s' = st_LastProcessedTickPerEpoch s"
  by (simp add: SetProcessedTickIntervalPerEpoch_def getProcessedTickIntervalsPerEpoch_def)

lemma AppendProcessedTickInterval_appends:
  assumes "getProcessedTickIntervalsPerEpoch s e = Inr p"
  shows "\<exists>s'. AppendProcessedTickInterval s e pti = Inr s' \<and>
           getProcessedTickIntervalsPerEpoch s' e = Inr (p\<lparr> Intervals := Intervals p @ [pti] \<rparr>)"
  using assms SetProcessedTickIntervalPerEpoch_result [of s e "p\<lparr> Intervals := Intervals p @ [pti] \<rparr>"]
  by (auto simp: AppendProcessedTickInterval_def)

text \<open>
  C6, amended. After \<open>SetLastProcessedTick\<close> the global and the per-epoch last tick are the
  tick just processed, and the epoch's interval list is not empty and ends in an interval
  whose \<open>hi\<close> is that tick. A new interval \<open>[tick,tick]\<close> is started exactly when the
  epoch had no interval yet; otherwise the list keeps its length and only the \<open>hi\<close> of its
  last interval is overwritten, whatever the previous last tick was. A list of
  non-overlapping ascending ranges stays one when the tick is not below the \<open>lo\<close> of the
  last range. An interval after a gap is opened by \<open>AppendProcessedTickInterval\<close>, which
  appends the interval it is given.
\<close>

theorem SetLastProcessedTick_intervals:
  assumes "getProcessedTickIntervalsPerEpoch s (pt_Epoch t) = Inr p"
  shows "(\<exists>s' p'. SetLastProcessedTick s t = Inr s' \<and>
           getProcessedTickIntervalsPerEpoch s' (pt_Epoch t) = Inr p' \<and>
           st_LastProcessedTick s' = Some t \<and>
           st_LastProcessedTickPerEpoch s' (pt_Epoch t) = Some (pt_TickNumber t) \<and>
           Intervals p' \<noteq> [] \<and>
           LastProcessedTick (last (Intervals p')) = pt_TickNumber t \<and>
           (Intervals p = [] \<longrightarrow>
              Intervals p' = [\<lparr> InitialProcessedTick = pt_TickNumber t,
                                LastProcessedTick = pt_TickNumber t \<rparr>]) \<and>
           (Intervals p \<noteq> [] \<longrightarrow>
              Intervals p' = butlast (Intervals p) @
                [(last (Intervals p))\<lparr> LastProcessedTick := pt_TickNumber t \<rparr>]) \<and>
           (length (Intervals p') = length (Intervals p) + 1 \<longleftrightarrow> Intervals p = []) \<and>
           (non_overlapping_ascending (Intervals p) \<and>
            (Intervals p \<noteq> [] \<longrightarrow> InitialProcessedTick (last (Intervals p)) \<le> pt_TickNumber t)
              \<longrightarrow> non_overlapping_ascending (Intervals p'))) \<and>
         (\<exists>s'. AppendProcessedTickInterval s (pt_Epoch t) pti = Inr s' \<and>
            getProcessedTickIntervalsPerEpoch s' (pt_Epoch t) =
              Inr (p\<lparr> Intervals := Intervals p @ [pti] \<rparr>))"
proof (rule conjI [OF _ AppendProcessedTickInterval_appends [OF assms]])
  let ?new = "butlast (Intervals p) @ [(last (Intervals p))\<lparr> LastProcessedTick := pt_TickNumber t \<rparr>]"
  let ?first = "[\<lparr> InitialProcessedTick = pt_TickNumber t, LastProcessedTick = pt_TickNumber t \<rparr>]"
  let ?s1 = "s\<lparr> st_LastProcessedTickPerEpoch :=
                    (st_LastProcessedTickPerEpoch s) (pt_Epoch t \<mapsto> pt_TickNumber t),
                  st_LastProcessedTick := Some t \<rparr>"
  let ?p' = "if Intervals p = [] then \<lparr> ptie_Epoch = pt_Epoch t, Intervals = ?first \<rparr>
             else p\<lparr> Intervals := ?new \<rparr>"
  from assms have g: "getProcessedTickIntervalsPerEpoch ?s1 (pt_Epoch t) = Inr p"
    by (simp add: getProcessedTickIntervalsPerEpoch_def)
  have u: "Intervals p \<noteq> [] \<Longrightarrow> (Intervals p)[length (Intervals p) - 1 :=
              (Intervals p ! (length (Intervals p) - 1))\<lparr> LastProcessedTick := pt_TickNumber t \<rparr>] = ?new"
    by (rule list_update_last)
  obtain s' where w: "SetProcessedTickIntervalPerEpoch ?s1 (pt_Epoch t) ?p' = Inr s'"
    and g': "getProcessedTickIntervalsPerEpoch s' (pt_Epoch t) = Inr ?p'"
    and l: "st_LastProcessedTick s' = st_LastProcessedTick ?s1"
      "st_LastProcessedTickPerEpoch s' = st_LastProcessedTickPerEpoch ?s1"
    using SetProcessedTickIntervalPerEpoch_result [of ?s1 "pt_Epoch t" ?p'] by blast
  have r: "SetLastProcessedTick s t = Inr s'"
    unfolding SetLastProcessedTick_def Let_def g using w u by (cases "Intervals p = []") simp_all
  have v: "non_overlapping_ascending (Intervals p) \<Longrightarrow> Intervals p \<noteq> [] \<Longrightarrow>
            InitialProcessedTick (last (Intervals p)) \<le> pt_TickNumber t
              \<Longrightarrow> non_overlapping_ascending ?new"
    by (rule extend_last_interval)
  have props: "Intervals ?p' \<noteq> [] \<and>
           LastProcessedTick (last (Intervals ?p')) = pt_TickNumber t \<and>
           (Intervals p = [] \<longrightarrow> Intervals ?p' = ?first) \<and>
           (Intervals p \<noteq> [] \<longrightarrow> Intervals ?p' = ?new) \<and>
           (length (Intervals ?p') = length (Intervals p) + 1 \<longleftrightarrow> Intervals p = []) \<and>
           (non_overlapping_ascending (Intervals p) \<and>
            (Intervals p \<noteq> [] \<longrightarrow> InitialProcessedTick (last (Intervals p)) \<le> pt_TickNumber t)
              \<longrightarrow> non_overlapping_ascending (Intervals ?p'))"
    using v by (cases "Intervals p = []") simp_all
  from l have l': "st_LastProcessedTick s' = Some t"
    "st_LastProcessedTickPerEpoch s' (pt_Epoch t) = Some (pt_TickNumber t)" by simp_all
  from r g' l' props
  show "\<exists>s' p'. SetLastProcessedTick s t = Inr s' \<and>
           getProcessedTickIntervalsPerEpoch s' (pt_Epoch t) = Inr p' \<and>
           st_LastProcessedTick s' = Some t \<and>
           st_LastProcessedTickPerEpoch s' (pt_Epoch t) = Some (pt_TickNumber t) \<and>
           Intervals p' \<noteq> [] \<and>
           LastProcessedTick (last (Intervals p')) = pt_TickNumber t \<and>
           (Intervals p = [] \<longrightarrow>
              Intervals p' = [\<lparr> InitialProcessedTick = pt_TickNumber t,
                                LastProcessedTick = pt_TickNumber t \<rparr>]) \<and>
           (Intervals p \<noteq> [] \<longrightarrow>
              Intervals p' = butlast (Intervals p) @
                [(last (Intervals p))\<lparr> LastProcessedTick := pt_TickNumber t \<rparr>]) \<and>
           (length (Intervals p') = length (Intervals p) + 1 \<longleftrightarrow> Intervals p = []) \<and>
           (non_overlapping_ascending (Intervals p) \<and>
            (Intervals p \<noteq> [] \<longrightarrow> InitialProcessedTick (last (Intervals p)) \<le> pt_TickNumber t)
              \<longrightarrow> non_overlapping_ascending (Intervals p'))"
    by blast
qed

lemma getIntervals_store_10_12:
  "getProcessedTickIntervalsPerEpoch store_10_12 1 =
     Inr \<lparr> ptie_Epoch = 1, Intervals = [\<lparr> InitialProcessedTick = 10, LastProcessedTick = 12 \<rparr>] \<rparr>"
  by (simp add: getProcessedTickIntervalsPerEpoch_def store_10_12_def empty_store_def)

text \<open>
  C6, as stated, fails: with \<open>[10,12]\<close> stored for epoch 1 and 12 the previous last tick,
  processing tick 20 of the same epoch (not \<open>12 + 1\<close>) starts no new interval; the stored
  list becomes the single interval \<open>[10,20]\<close>.
\<close>

theorem no_new_interval_after_gap_counterexample:
  "st_LastProcessedTick store_10_12 = Some \<lparr> pt_TickNumber = 12, pt_Epoch = 1 \<rparr> \<and>
   (20 :: uint32) \<noteq> 12 + 1 \<and>
   (case SetLastProcessedTick store_10_12 \<lparr> pt_TickNumber = 20, pt_Epoch = 1 \<rparr> of
      Inl err \<Rightarrow> None
    | Inr s' \<Rightarrow> map_option Intervals (st_ProcessedTickIntervals s' 1)) =
     Some [\<lparr> InitialProcessedTick = 10, LastProcessedTick = 20 \<rparr>]"
proof -
  have g: "getProcessedTickIntervalsPerEpoch
             (store_10_12\<lparr> st_LastProcessedTickPerEpoch :=
                 (st_LastProcessedTickPerEpoch store_10_12)(1 \<mapsto> 20),
                 st_LastProcessedTick := Some \<lparr> pt_TickNumber = 20, pt_Epoch = 1 \<rparr> \<rparr>) 1 =
     Inr \<lparr> ptie_Epoch = 1, Intervals = [\<lparr> InitialProcessedTick = 10, LastProcessedTick = 12 \<rparr>] \<rparr>"
    by (simp add: getProcessedTickIntervalsPerEpoch_def store_10_12_def empty_store_def)
  have l: "st_LastProcessedTick store_10_12 = Some \<lparr> pt_TickNumber = 12, pt_Epoch = 1 \<rparr>"
    by (simp add: store_10_12_def empty_store_def)
  show ?thesis
    by (simp add: SetLastProcessedTick_def g l SetProcessedTickIntervalPerEpoch_def)
qed

theorem SetLastProcessedTick_intervals_witness:
  "getProcessedTickIntervalsPerEpoch store_10_12 1 =
     Inr \<lparr> ptie_Epoch = 1, Intervals = [\<lparr> InitialProcessedTick = 10, LastProcessedTick = 12 \<rparr>] \<rparr> \<and>
   (\<exists>s' p'. SetLastProcessedTick store_10_12 \<lparr> pt_TickNumber = 13, pt_Epoch = 1 \<rparr> = Inr s' \<and>
      getProcessedTickIntervalsPerEpoch s' 1 = Inr p' \<and>
      Intervals p' = [\<lparr> InitialProcessedTick = 10, LastProcessedTick = 13 \<rparr>] \<and>
      non_overlapping_ascending (Intervals p'))"
proof -
  from SetLastProcessedTick_intervals [of store_10_12 "\<lparr> pt_TickNumber = 13, pt_Epoch = 1 \<rparr>",
      simplified, OF getIntervals_store_10_12, THEN conjunct1]
  show ?thesis by (auto simp: getIntervals_store_10_12)
qed

section \<open>The reverse reader on a page that ends with its tick\<close>

lemma iterate_store_page: "iterate_from_end store_page ''I'' ''A'' 5 = [(5, [''a''])]"
  by (simp add: iterate_from_end_def store_page_def empty_store_def)

lemma gets_store_page:
  "GetLastProcessedTick store_page = Inr \<lparr> pt_TickNumber = 10, pt_Epoch = 1 \<rparr>"
  "GetTransactionStatus store_page ''a'' = Inr \<lparr> ts_TxId = ''a'', MoneyFlew = True \<rparr>"
  "GetTransaction store_page ''a'' = Inr ptx_self"
  "GetTickData store_page 5 = Inr \<lparr> ptd_Epoch = 1, ptd_TickNumber = 5, ptd_Timestamp = 99,
                               ptd_TransactionIds = [''a''] \<rparr>"
  by (simp_all add: GetLastProcessedTick_def GetTransactionStatus_def GetTransaction_def
      GetTickData_def store_page_def empty_store_def)

lemma inner_store_page:
  "inner_loop store_page True 1 5 [''a''] 0 [] 0 = Inr (Returned [item_a] 0)"
  by (subst inner_loop.simps) (simp add: gets_store_page item_a_def)

lemma page_store_page:
  "GetIdetityAssetTransactionsFromEnd store_page True ''I'' ''A'' 5 0 1 = Inr ([item_a], 5, 0, 10)"
  by (simp add: GetIdetityAssetTransactionsFromEnd_def gets_store_page iterate_store_page
      inner_store_page)

text \<open>
  C1 fails on the code. With one qualifying transaction at tick 5 and a limit of 1, the
  reader returns the transaction together with \<open>(nextEndTick, nextIndex) = (5, 0)\<close>: the
  page was filled by the last entry of the tick, the next index stays 0 and the tick is not
  decremented. Fed back, the same call returns the same page, so a client that concatenates
  pages holds the transaction \<open>n\<close> times after \<open>n\<close> calls and never reaches an empty page.
\<close>

theorem reverse_reader_repeats_full_page:
  "GetIdetityAssetTransactionsFromEnd store_page True ''I'' ''A'' 5 0 1 = Inr ([item_a], 5, 0, 10) \<and>
   (\<forall>n. pages n store_page True ''I'' ''A'' 5 0 1 = replicate n item_a)"
proof
  show "GetIdetityAssetTransactionsFromEnd store_page True ''I'' ''A'' 5 0 1 = Inr ([item_a], 5, 0, 10)"
    by (rule page_store_page)
  have "pages n store_page True ''I'' ''A'' 5 0 1 = replicate n item_a" for n
    by (induction n) (simp_all add: page_store_page)
  then show "\<forall>n. pages n store_page True ''I'' ''A'' 5 0 1 = replicate n item_a" by blast
qed

section \<open>ValidateTick: quorum failure and empty ticks\<close>

lemma computors_Store_result:
  "computors_Store s comps = Inr (s\<lparr> st_Computors := (st_Computors s)(comp_Epoch comps \<mapsto> comps) \<rparr>)"
  by (simp add: computors_Store_def SetComputors_def)

lemma store_unchanged_if_present:
  "st_Computors s e = Some c \<Longrightarrow> s\<lparr> st_Computors := (st_Computors s)(e \<mapsto> c) \<rparr> = s"
  by (simp add: fun_upd_idem)

text \<open>
  C3, amended. When the votes are fetched, the computor list is resolved and valid, and
  quorum validation fails, \<open>ValidateTick\<close> returns the wrapped quorum error and has written
  the computor list under its epoch and nothing else: tick data, quorum data, transactions
  and the last processed tick are as before, and the whole store is as before when it
  already held that list.
\<close>

theorem quorum_failure_writes_only_computors:
  assumes "GetQuorumVotes qu (ucast tickNumber) = Inr quorumVotes"
    and "quorumVotes \<noteq> []"
    and "resolveComputors qu s (qv_Epoch (quorumVotes ! 0)) = Inr comps"
    and "computors_Validate v comps = None"
    and "quorum_Validate v quorumVotes comps = Some err"
  shows "ValidateTick qu v s tickNumber =
           (Some (Wrap err ''validating quorum''),
            s\<lparr> st_Computors := (st_Computors s)(comp_Epoch comps \<mapsto> comps) \<rparr>) \<and>
         (st_Computors s (comp_Epoch comps) = Some comps \<longrightarrow>
            snd (ValidateTick qu v s tickNumber) = s) \<and>
         st_LastProcessedTick (snd (ValidateTick qu v s tickNumber)) = st_LastProcessedTick s \<and>
         st_TickData (snd (ValidateTick qu v s tickNumber)) = st_TickData s \<and>
         st_QuorumData (snd (ValidateTick qu v s tickNumber)) = st_QuorumData s \<and>
         st_TickTx (snd (ValidateTick qu v s tickNumber)) = st_TickTx s"
proof -
  have r: "ValidateTick qu v s tickNumber =
           (Some (Wrap err ''validating quorum''),
            s\<lparr> st_Computors := (st_Computors s)(comp_Epoch comps \<mapsto> comps) \<rparr>)"
    using assms by (simp add: ValidateTick_def computors_Store_result)
  show ?thesis unfolding r by (simp add: store_unchanged_if_present)
qed

lemma resolve_node_7: "resolveComputors node_7 empty_store 1 = Inr comps_1"
  by (simp add: resolveComputors_def computors_Get_def GetComputors_def empty_store_def node_7_def)

text \<open>
  C3, as stated, fails: on a store without computors for epoch 1, a tick whose quorum
  validation fails leaves the computor list of epoch 1 in the store; the store is not
  identical before and after the call.
\<close>

theorem quorum_failure_writes_computors_counterexample:
  "quorum_Validate checks_no_quorum [vote_empty] comps_1 = Some (New ''not enough quorum votes'') \<and>
   fst (ValidateTick node_7 checks_no_quorum empty_store 7) =
     Some (Wrap (New ''not enough quorum votes'') ''validating quorum'') \<and>
   st_Computors empty_store 1 = None \<and>
   st_Computors (snd (ValidateTick node_7 checks_no_quorum empty_store 7)) 1 = Some comps_1"
proof -
  have q: "quorum_Validate checks_no_quorum [vote_empty] comps_1 = Some (New ''not enough quorum votes'')"
    by (simp add: checks_no_quorum_def checks_accept_def)
  have c: "computors_Validate checks_no_quorum comps_1 = None"
    by (simp add: checks_no_quorum_def checks_accept_def)
  have g: "GetQuorumVotes node_7 t = Inr [vote_empty]" for t
    by (simp add: node_7_def)
  have e: "qv_Epoch vote_empty = 1" "comp_Epoch comps_1 = 1"
    by (simp_all add: vote_empty_def comps_1_def)
  have "ValidateTick node_7 checks_no_quorum empty_store 7 =
     (Some (Wrap (New ''not enough quorum votes'') ''validating quorum''),
      empty_store\<lparr> st_Computors := (st_Computors empty_store)(1 \<mapsto> comps_1) \<rparr>)"
    by (simp add: ValidateTick_def g e resolve_node_7 c q computors_Store_result)
  then show ?thesis using q by (simp add: empty_store_def)
qed

theorem quorum_failure_writes_only_computors_witness:
  "GetQuorumVotes node_7 (ucast (7 :: uint64)) = Inr [vote_empty] \<and>
   [vote_empty] \<noteq> [] \<and>
   resolveComputors node_7 empty_store (qv_Epoch ([vote_empty] ! 0)) = Inr comps_1 \<and>
   computors_Validate checks_no_quorum comps_1 = None \<and>
   quorum_Validate checks_no_quorum [vote_empty] comps_1 = Some (New ''not enough quorum votes'') \<and>
   ValidateTick node_7 checks_no_quorum empty_store 7 =
     (Some (Wrap (New ''not enough quorum votes'') ''validating quorum''),
      empty_store\<lparr> st_Computors := (st_Computors empty_store)(comp_Epoch comps_1 \<mapsto> comps_1) \<rparr>) \<and>
   st_LastProcessedTick (snd (ValidateTick node_7 checks_no_quorum empty_store 7)) =
     st_LastProcessedTick empty_store"
proof -
  have q: "quorum_Validate checks_no_quorum [vote_empty] comps_1 = Some (New ''not enough quorum votes'')"
    by (simp add: checks_no_quorum_def checks_accept_def)
  have c: "computors_Validate checks_no_quorum comps_1 = None"
    by (simp add: checks_no_quorum_def checks_accept_def)
  have g: "GetQuorumVotes node_7 (ucast (7 :: uint64)) = Inr [vote_empty]"
    by (simp add: node_7_def)
  have r: "resolveComputors node_7 empty_store (qv_Epoch ([vote_empty] ! 0)) = Inr comps_1"
    by (simp add: vote_empty_def resolve_node_7)
  have n: "[vote_empty] \<noteq> []" by simp
  from quorum_failure_writes_only_computors [OF g n r c q] g n r c q
  show ?thesis by simp
qed

lemma MinimumQuorumVotes_451: "MinimumQuorumVotes = 451"
  by (simp add: MinimumQuorumVotes_def)


lemma filter_map_all: "(\<And>x. P (f x)) \<Longrightarrow> filter P (map f xs) = map f xs"
  by (induction xs) simp_all


lemma upt_451: "[0..<451] = 0 # [1..<451]"
  by (simp only: One_nat_def) (rule upt_conv_Cons, simp)











text \<open>
  The digest the quorum agrees on is the first vote's when the first vote belongs to the
  dominant group; \<open>ValidateTick\<close> reads the first vote whether it does or not.
\<close>

lemma agreed_digest_of_first_vote:
  "dominant_vote votes = Some v \<Longrightarrow> same_digests v (votes ! 0) \<Longrightarrow>
     quorum_agreed_TxDigest votes = Some (qv_TxDigest (votes ! 0))"
  by (simp add: quorum_agreed_TxDigest_def same_digests_def)




lemma checks_quorum_fields:
  "computors_Validate checks_quorum c = None"
  "quorum_Validate checks_quorum = quorum_Validate_spec (\<lambda>w c. True)"
  by (simp_all add: checks_quorum_def)




lemma votes_full_Cons:
  "votes_full = (vote_of 0) \<lparr> qv_TxDigest := replicate 32 1 \<rparr> #
     map (\<lambda>i. (vote_of i) \<lparr> qv_TxDigest := replicate 32 1 \<rparr>) [1..<451]"
  by (simp only: votes_full_def upt_451 list.map)

lemma group_full:
  "filter (same_digests ((vote_of i) \<lparr> qv_TxDigest := replicate 32 1 \<rparr>)) votes_full = votes_full"
  unfolding votes_full_def
  by (rule filter_map_all) (simp add: same_digests_def vote_of_def)

lemma dominant_votes_full:
  "dominant_vote votes_full = Some ((vote_of 0) \<lparr> qv_TxDigest := replicate 32 1 \<rparr>)"
proof -
  have "MinimumQuorumVotes \<le>
      length (filter (same_digests ((vote_of 0) \<lparr> qv_TxDigest := replicate 32 1 \<rparr>)) votes_full)"
    by (simp add: group_full MinimumQuorumVotes_451) (simp add: votes_full_def)
  then show ?thesis
    unfolding dominant_vote_def by (subst (2) votes_full_Cons) simp
qed

lemma quorum_valid_full: "quorum_Validate_spec (\<lambda>w c. True) votes_full comps = None"
  by (simp add: quorum_Validate_spec_def dominant_votes_full MinimumQuorumVotes_451 list_all_iff)
     (simp add: votes_full_def)

text \<open>
  With these checks a tick whose quorum agrees on a non-zero digest has its votes and its
  body stored by \<open>ValidateTick\<close>.
\<close>

lemma nonempty_tick_is_stored:
  "quorum_agreed_TxDigest votes_full = Some (replicate 32 1) \<and>
   fst (ValidateTick node_full checks_quorum empty_store 7) = None \<and>
   st_TickData (snd (ValidateTick node_full checks_quorum empty_store 7)) 7 =
     Some \<lparr> ptd_Epoch = 1, ptd_TickNumber = 7, ptd_Timestamp = 0,
            ptd_TransactionIds = [EncodeToString (replicate 32 1), EncodeToString (replicate 32 1)] \<rparr> \<and>
   st_QuorumData (snd (ValidateTick node_full checks_quorum empty_store 7)) 7 = Some votes_full"
proof -
  have g: "GetQuorumVotes node_full t = Inr votes_full"
          "node_GetTickData node_full t = Inr td_one"
          "GetTickTransactions node_full t = Inr []" for t
    by (simp_all add: node_full_def)
  have e: "comp_Epoch comps_1 = 1" by (simp add: comps_1_def)
  have f: "votes_full \<noteq> []" "qv_Epoch (votes_full ! 0) = 1"
          "qv_TxDigest (votes_full ! 0) = replicate 32 1" "qv_Tick (hd votes_full) = 7"
    by (simp_all add: votes_full_Cons vote_of_def vote_empty_def)
  have r: "resolveComputors node_full empty_store 1 = Inr comps_1"
    by (simp add: resolveComputors_def computors_Get_def GetComputors_def empty_store_def
          node_full_def)
  have c: "tick_Validate checks_quorum = (\<lambda>t q c. None)"
          "tx_Validate checks_quorum = (\<lambda>txs t. Inr txs)"
          "quorum_Store checks_quorum s votes_full =
             Inr (s\<lparr> st_QuorumData := (st_QuorumData s)(7 \<mapsto> votes_full) \<rparr>)"
          "tick_Store checks_quorum s td_one =
             Inr (s\<lparr> st_TickData := (st_TickData s)(7 \<mapsto>
               \<lparr> ptd_Epoch = 1, ptd_TickNumber = 7, ptd_Timestamp = 0,
                 ptd_TransactionIds = [EncodeToString (replicate 32 1), EncodeToString (replicate 32 1)] \<rparr>) \<rparr>)"
          "tx_Store checks_quorum s [] = Inr s" for s
    by (simp_all add: checks_quorum_def f SetTickData_def td_one_def)
  have v: "ValidateTick node_full checks_quorum empty_store 7 =
     (None, empty_store\<lparr> st_Computors := (st_Computors empty_store)(1 \<mapsto> comps_1),
                          st_QuorumData := (st_QuorumData empty_store)(7 \<mapsto> votes_full),
                          st_TickData := (st_TickData empty_store)(7 \<mapsto>
               \<lparr> ptd_Epoch = 1, ptd_TickNumber = 7, ptd_Timestamp = 0,
                 ptd_TransactionIds = [EncodeToString (replicate 32 1), EncodeToString (replicate 32 1)] \<rparr>) \<rparr>)"
    by (simp add: ValidateTick_def g e f r c checks_quorum_fields quorum_valid_full
          computors_Store_result)
  show ?thesis unfolding v
    by (simp add: quorum_agreed_TxDigest_def dominant_votes_full)
qed







end
